theory Spec2Isabelle
  imports Complex_Main "HOL-Library.Log_Nat"
begin

section \<open>The relational store\<close>

text \<open>
  The cart service of \<^verbatim>\<open>src/pages/api/cart/index.ts\<close> and the checkout stub of
  \<^verbatim>\<open>src/pages/api/orders/index.ts\<close> are request handlers over a relational store that
  they reach through the Prisma client.  The handlers are embedded as functions from a
  store to a response and a new store.
\<close>

text \<open>
  Modelled from the spec: the Prisma schema (\<^verbatim>\<open>prisma/schema.prisma\<close>), which declares
  the tables, is not among the sources.  The records below follow section 3 of the
  specification and the schema summary of \<^verbatim>\<open>src/IMPLEMENTATION_GUIDE.md\<close>: a Product
  has id, name, description, price and imageUrl; a Cart has an id and a unique userId
  referencing a User; a CartItem has an id, an integer quantity, a productId, a cartId and
  the compound unique key (cartId, productId), which the handlers name as
  \<^verbatim>\<open>cartId_productId\<close>.  The quantity is an \<^verbatim>\<open>int\<close> column and the price a
  \<^verbatim>\<open>float\<close> column (the diagram of the README): a 32-bit integer and a double.

  Ids that the store generates (of carts and of cart items) are opaque and only ever
  compared for equality; they are drawn from a counter.  Product and user ids reach the
  handlers as strings.  Prices are JavaScript numbers; their type is the parameter \<open>'n\<close>.
\<close>

type_synonym row_id = nat

record 'n product =
  product_id :: string
  name :: string
  description :: string
  price :: 'n
  imageUrl :: string

record cart =
  cart_id :: row_id
  userId :: string

record cartItem =
  item_id :: row_id
  quantity :: int
  productId :: string
  cartId :: row_id

record 'n store =
  users :: "string list"
  products :: "'n product list"
  carts :: "cart list"
  cartItems :: "cartItem list"
  nextId :: nat
  connected :: bool

text \<open>
  A call of the Prisma client either returns or throws.  \<open>ConnectionError\<close> stands for
  an unreachable store (field \<open>connected\<close>); the other errors are the ones that the
  store raises from its constraints and from the range of its columns.
\<close>

datatype prisma_error =
  ConnectionError
  | UniqueConstraint
  | ForeignKeyConstraint
  | RecordNotFound
  | InconsistentResult
  | ValueOutOfRange

text \<open>The values of a 32-bit integer column.\<close>

definition int32 :: "int \<Rightarrow> bool" where
  "int32 i = (- 2147483648 \<le> i \<and> i \<le> 2147483647)"

text \<open>The two \<^verbatim>\<open>where\<close> clauses that the handlers use on cart items.\<close>

datatype item_where = ById row_id | ByCartId_ProductId row_id string

fun matches :: "item_where \<Rightarrow> cartItem \<Rightarrow> bool" where
  "matches (ById i) it = (item_id it = i)"
| "matches (ByCartId_ProductId c p) it = (cartId it = c \<and> productId it = p)"

definition product_findUnique :: "'n store \<Rightarrow> string \<Rightarrow> prisma_error + 'n product option" where
  "product_findUnique db pid =
     (if connected db then Inr (find (\<lambda>p. product_id p = pid) (products db))
      else Inl ConnectionError)"

definition cart_findUnique :: "'n store \<Rightarrow> string \<Rightarrow> prisma_error + cart option" where
  "cart_findUnique db uid =
     (if connected db then Inr (find (\<lambda>c. userId c = uid) (carts db))
      else Inl ConnectionError)"

definition cart_create :: "'n store \<Rightarrow> string \<Rightarrow> prisma_error + (cart \<times> 'n store)" where
  "cart_create db uid =
     (if \<not> connected db then Inl ConnectionError
      else if uid \<notin> set (users db) then Inl ForeignKeyConstraint
      else if uid \<in> set (map userId (carts db)) then Inl UniqueConstraint
      else let c = \<lparr>cart_id = nextId db, userId = uid\<rparr>
           in Inr (c, db\<lparr>carts := carts db @ [c], nextId := Suc (nextId db)\<rparr>))"

definition cartItem_findUnique :: "'n store \<Rightarrow> item_where \<Rightarrow> prisma_error + cartItem option" where
  "cartItem_findUnique db w =
     (if connected db then Inr (find (matches w) (cartItems db))
      else Inl ConnectionError)"

text \<open>
  \<^verbatim>\<open>upsert({where: {cartId_productId}, update: {quantity: {increment}}, create})\<close>:
  the row with the key is incremented in place, and a row is created when there is none.
  The increment and the quantity to create are arguments of the column's type, and the
  incremented quantity is stored in the column: a value outside the 32-bit range makes the
  call throw, and nothing is written.
\<close>

definition cartItem_upsert ::
  "'n store \<Rightarrow> row_id \<Rightarrow> string \<Rightarrow> int \<Rightarrow> int \<Rightarrow> prisma_error + 'n store" where
  "cartItem_upsert db cid pid inc qty =
     (if \<not> connected db then Inl ConnectionError
      else if \<not> int32 inc \<or> \<not> int32 qty then Inl ValueOutOfRange
      else case find (matches (ByCartId_ProductId cid pid)) (cartItems db) of
        Some existing \<Rightarrow>
          if \<not> int32 (quantity existing + inc) then Inl ValueOutOfRange
          else
            Inr (db\<lparr>cartItems :=
                   map (\<lambda>it. if matches (ByCartId_ProductId cid pid) it
                              then it\<lparr>quantity := quantity it + inc\<rparr> else it)
                       (cartItems db)\<rparr>)
      | None \<Rightarrow>
          if cid \<notin> set (map cart_id (carts db)) \<or> pid \<notin> set (map product_id (products db))
          then Inl ForeignKeyConstraint
          else Inr (db\<lparr>cartItems := cartItems db @
                        [\<lparr>item_id = nextId db, quantity = qty, productId = pid, cartId = cid\<rparr>],
                      nextId := Suc (nextId db)\<rparr>))"

text \<open>
  \<^verbatim>\<open>update({where: {id}, data: {quantity}})\<close>.  The handler calls it in the decrement
  only, with a positive quantity below the one that the row holds.
\<close>

definition cartItem_update :: "'n store \<Rightarrow> item_where \<Rightarrow> int \<Rightarrow> prisma_error + 'n store" where
  "cartItem_update db w qty =
     (if \<not> connected db then Inl ConnectionError
      else if find (matches w) (cartItems db) = None then Inl RecordNotFound
      else Inr (db\<lparr>cartItems :=
                  map (\<lambda>it. if matches w it then it\<lparr>quantity := qty\<rparr> else it) (cartItems db)\<rparr>))"

definition cartItem_delete :: "'n store \<Rightarrow> item_where \<Rightarrow> prisma_error + 'n store" where
  "cartItem_delete db w =
     (if \<not> connected db then Inl ConnectionError
      else if find (matches w) (cartItems db) = None then Inl RecordNotFound
      else Inr (db\<lparr>cartItems := filter (\<lambda>it. \<not> matches w it) (cartItems db)\<rparr>))"

definition cartItem_deleteMany :: "'n store \<Rightarrow> row_id \<Rightarrow> prisma_error + 'n store" where
  "cartItem_deleteMany db cid =
     (if \<not> connected db then Inl ConnectionError
      else Inr (db\<lparr>cartItems := filter (\<lambda>it. cartId it \<noteq> cid) (cartItems db)\<rparr>))"

text \<open>
  \<^verbatim>\<open>include: {items: {include: {product: true}}}\<close>: every item of the cart is
  joined with its product.  The relation is required, so a missing product is an error
  of the client.
\<close>

fun include_product ::
  "'n product list \<Rightarrow> cartItem list \<Rightarrow> prisma_error + (cartItem \<times> 'n product) list" where
  "include_product ps [] = Inr []"
| "include_product ps (it # its) =
     (case find (\<lambda>p. product_id p = productId it) ps of
        None \<Rightarrow> Inl InconsistentResult
      | Some p \<Rightarrow>
          (case include_product ps its of
             Inl e \<Rightarrow> Inl e
           | Inr r \<Rightarrow> Inr ((it, p) # r)))"

definition cart_items :: "'n store \<Rightarrow> row_id \<Rightarrow> cartItem list" where
  "cart_items db cid = filter (\<lambda>it. cartId it = cid) (cartItems db)"

definition cart_findUnique_include ::
  "'n store \<Rightarrow> string \<Rightarrow> prisma_error + (cart \<times> (cartItem \<times> 'n product) list) option" where
  "cart_findUnique_include db uid =
     (if \<not> connected db then Inl ConnectionError
      else case find (\<lambda>c. userId c = uid) (carts db) of
        None \<Rightarrow> Inr None
      | Some c \<Rightarrow>
          (case include_product (products db) (cart_items db (cart_id c)) of
             Inl e \<Rightarrow> Inl e
           | Inr its \<Rightarrow> Inr (Some (c, its))))"

section \<open>Requests and responses\<close>

text \<open>
  A request body is a parsed JSON value.  A JSON number is held with its exact value, so
  \<^verbatim>\<open>Number.isInteger\<close> is the test that the value is a whole number.  An object
  holds its properties, each key once; reading a property that is not there, or a
  property of a value that is not an object, gives \<^verbatim>\<open>undefined\<close>.
\<close>

datatype jsval =
  JUndefined
  | JNull
  | JBool bool
  | JNum real
  | JStr string
  | JArr "jsval list"
  | JObj "(string \<times> jsval) list"

fun field :: "jsval \<Rightarrow> string \<Rightarrow> jsval" where
  "field (JObj fs) k = (case map_of fs k of None \<Rightarrow> JUndefined | Some v \<Rightarrow> v)"
| "field _ k = JUndefined"

datatype zod_issue = ZodIssue (path: "string list") (code: string)

datatype 'n body =
  Error string
  | ValidationFailed "zod_issue list"
  | RemoveValidationFailed string
  | CartJson cart "(cartItem \<times> 'n product) list" 'n
  | OrderJson bool 'n

datatype 'n response = Response (status: nat) (json: "'n body")

record request =
  req_method :: string
  session_user :: "string option"
  body :: jsval

text \<open>
  What the handlers take from their platform: the test of \<^verbatim>\<open>z.string().cuid()\<close>
  (the zod library) and the arithmetic of JavaScript numbers, where \<open>toFixed2\<close> is
  \<^verbatim>\<open>parseFloat(x.toFixed(2))\<close>.
\<close>

record 'n runtime =
  is_cuid :: "string \<Rightarrow> bool"
  num_of_int :: "int \<Rightarrow> 'n"
  num_add :: "'n \<Rightarrow> 'n \<Rightarrow> 'n"
  num_mul :: "'n \<Rightarrow> 'n \<Rightarrow> 'n"
  toFixed2 :: "'n \<Rightarrow> 'n"

section \<open>The cart handlers\<close>

text \<open>\<^verbatim>\<open>cartItemSchema\<close>: an object with a cuid string and an integer number.\<close>

definition is_cuid_string :: "'n runtime \<Rightarrow> jsval \<Rightarrow> bool" where
  "is_cuid_string rt v = (case v of JStr s \<Rightarrow> is_cuid rt s | _ \<Rightarrow> False)"

definition is_integer_number :: "jsval \<Rightarrow> bool" where
  "is_integer_number v = (case v of JNum r \<Rightarrow> of_int \<lfloor>r\<rfloor> = r | _ \<Rightarrow> False)"

definition productId_issues :: "'n runtime \<Rightarrow> jsval \<Rightarrow> zod_issue list" where
  "productId_issues rt v =
     (case v of
        JStr s \<Rightarrow> if is_cuid rt s then [] else [ZodIssue [''productId''] ''invalid_string'']
      | _ \<Rightarrow> [ZodIssue [''productId''] ''invalid_type''])"

definition quantity_issues :: "jsval \<Rightarrow> zod_issue list" where
  "quantity_issues v =
     (case v of
        JNum r \<Rightarrow> if of_int \<lfloor>r\<rfloor> = r then [] else [ZodIssue [''quantity''] ''invalid_type'']
      | _ \<Rightarrow> [ZodIssue [''quantity''] ''invalid_type''])"

definition cartItemSchema_parse :: "'n runtime \<Rightarrow> jsval \<Rightarrow> zod_issue list + (string \<times> int)" where
  "cartItemSchema_parse rt b =
     (case b of
        JObj fs \<Rightarrow>
          (let issues = productId_issues rt (field b ''productId'') @
                        quantity_issues (field b ''quantity'')
           in case field b ''productId'' of
                JStr s \<Rightarrow>
                  (case field b ''quantity'' of
                     JNum r \<Rightarrow> if issues = [] then Inr (s, \<lfloor>r\<rfloor>) else Inl issues
                   | _ \<Rightarrow> Inl issues)
              | _ \<Rightarrow> Inl issues)
      | _ \<Rightarrow> Inl [ZodIssue [] ''invalid_type''])"

text \<open>
  The total of a cart with its items:
  \<^verbatim>\<open>items.reduce((sum, item) => sum + item.product.price * item.quantity, 0)\<close>.
\<close>

definition items_total :: "'n runtime \<Rightarrow> (cartItem \<times> 'n product) list \<Rightarrow> 'n" where
  "items_total rt its =
     foldl (\<lambda>sum item. num_add rt sum (num_mul rt (price (snd item)) (num_of_int rt (quantity (fst item)))))
           (num_of_int rt 0) its"

definition handleGetCart :: "'n runtime \<Rightarrow> 'n store \<Rightarrow> string \<Rightarrow> 'n response \<times> 'n store" where
  "handleGetCart rt db uid =
     (case cart_findUnique_include db uid of
        Inl e \<Rightarrow> (Response 500 (Error ''Failed to fetch cart''), db)
      | Inr None \<Rightarrow> (Response 404 (Error ''Cart not found''), db)
      | Inr (Some (c, its)) \<Rightarrow>
          (Response 200 (CartJson c its (toFixed2 rt (items_total rt its))), db))"

text \<open>
  The tail that \<^verbatim>\<open>handleAddToCart\<close> and \<^verbatim>\<open>handleRemoveFromCart\<close> share: the cart is
  read again with its items and sent with its total.  Reading \<^verbatim>\<open>updatedCart!.items\<close>
  of a cart that is not there throws, and the handler's \<^verbatim>\<open>catch\<close> answers 500 with its
  own message.
\<close>

definition respond_updatedCart ::
  "'n runtime \<Rightarrow> string \<Rightarrow> 'n store \<Rightarrow> string \<Rightarrow> 'n response \<times> 'n store" where
  "respond_updatedCart rt failed db uid =
     (case cart_findUnique_include db uid of
        Inl e \<Rightarrow> (Response 500 (Error failed), db)
      | Inr None \<Rightarrow> (Response 500 (Error failed), db)
      | Inr (Some (c, its)) \<Rightarrow>
          (Response 200 (CartJson c its (toFixed2 rt (items_total rt its))), db))"

text \<open>
  Lines 98 to 167 of \<^verbatim>\<open>handleAddToCart\<close>: add, increment or decrement the item by
  the quantity delta, then answer with the updated cart.  No transaction spans the
  calls, so each answer comes with the store as the calls before it left it.
\<close>

definition adjust_item ::
  "'n runtime \<Rightarrow> 'n store \<Rightarrow> cart \<Rightarrow> string \<Rightarrow> int \<Rightarrow> string \<Rightarrow> 'n response \<times> 'n store" where
  "adjust_item rt db c pid qty uid =
     (if qty = 0 then respond_updatedCart rt ''Failed to add to cart'' db uid
      else if qty > 0 then
        (case cartItem_upsert db (cart_id c) pid qty qty of
           Inl e \<Rightarrow> (Response 500 (Error ''Failed to add to cart''), db)
         | Inr db' \<Rightarrow> respond_updatedCart rt ''Failed to add to cart'' db' uid)
      else
        (case cartItem_findUnique db (ByCartId_ProductId (cart_id c) pid) of
           Inl e \<Rightarrow> (Response 500 (Error ''Failed to add to cart''), db)
         | Inr None \<Rightarrow> (Response 400 (Error ''Cart item not found''), db)
         | Inr (Some existing) \<Rightarrow>
             (let newQty = quantity existing + qty in
              if newQty > 0 then
                (case cartItem_update db (ById (item_id existing)) newQty of
                   Inl e \<Rightarrow> (Response 500 (Error ''Failed to add to cart''), db)
                 | Inr db' \<Rightarrow> respond_updatedCart rt ''Failed to add to cart'' db' uid)
              else
                (case cartItem_delete db (ById (item_id existing)) of
                   Inl e \<Rightarrow> (Response 500 (Error ''Failed to add to cart''), db)
                 | Inr db' \<Rightarrow> respond_updatedCart rt ''Failed to add to cart'' db' uid))))"

definition handleAddToCart ::
  "'n runtime \<Rightarrow> 'n store \<Rightarrow> jsval \<Rightarrow> string \<Rightarrow> 'n response \<times> 'n store" where
  "handleAddToCart rt db b uid =
     (case cartItemSchema_parse rt b of
        Inl issues \<Rightarrow> (Response 400 (ValidationFailed issues), db)
      | Inr (pid, qty) \<Rightarrow>
          (case product_findUnique db pid of
             Inl e \<Rightarrow> (Response 500 (Error ''Failed to add to cart''), db)
           | Inr None \<Rightarrow> (Response 404 (Error ''Product not found''), db)
           | Inr (Some p) \<Rightarrow>
               (case cart_findUnique db uid of
                  Inl e \<Rightarrow> (Response 500 (Error ''Failed to add to cart''), db)
                | Inr (Some c) \<Rightarrow> adjust_item rt db c pid qty uid
                | Inr None \<Rightarrow>
                    (case cart_create db uid of
                       Inl e \<Rightarrow> (Response 500 (Error ''Failed to add to cart''), db)
                     | Inr (c, db') \<Rightarrow> adjust_item rt db' c pid qty uid))))"

text \<open>
  \<^verbatim>\<open>handleRemoveFromCart\<close>.  Destructuring \<^verbatim>\<open>req.body\<close> throws on \<^verbatim>\<open>null\<close> and
  \<^verbatim>\<open>undefined\<close>; a productId passes the guard when it is a non-empty string.
\<close>

definition handleRemoveFromCart ::
  "'n runtime \<Rightarrow> 'n store \<Rightarrow> jsval \<Rightarrow> string \<Rightarrow> 'n response \<times> 'n store" where
  "handleRemoveFromCart rt db b uid =
     (if b = JUndefined \<or> b = JNull then (Response 500 (Error ''Failed to remove from cart''), db)
      else case field b ''productId'' of
        JStr pid \<Rightarrow>
          (if pid = [] then
             (Response 400 (RemoveValidationFailed ''productId is required and must be a string''), db)
           else case cart_findUnique db uid of
             Inl e \<Rightarrow> (Response 500 (Error ''Failed to remove from cart''), db)
           | Inr None \<Rightarrow> (Response 404 (Error ''Cart not found''), db)
           | Inr (Some c) \<Rightarrow>
               (case cartItem_delete db (ByCartId_ProductId (cart_id c) pid) of
                  Inl e \<Rightarrow> (Response 500 (Error ''Failed to remove from cart''), db)
                | Inr db' \<Rightarrow> respond_updatedCart rt ''Failed to remove from cart'' db' uid))
      | _ \<Rightarrow> (Response 400 (RemoveValidationFailed ''productId is required and must be a string''), db))"

text \<open>The default export of \<^verbatim>\<open>src/pages/api/cart/index.ts\<close>.\<close>

definition handler :: "'n runtime \<Rightarrow> 'n store \<Rightarrow> request \<Rightarrow> 'n response \<times> 'n store" where
  "handler rt db req =
     (case session_user req of
        None \<Rightarrow> (Response 401 (Error ''Unauthorized''), db)
      | Some uid \<Rightarrow>
          if req_method req = ''GET'' then handleGetCart rt db uid
          else if req_method req = ''POST'' then handleAddToCart rt db (body req) uid
          else if req_method req = ''DELETE'' then handleRemoveFromCart rt db (body req) uid
          else (Response 405 (Error ''Method not allowed''), db))"

section \<open>Checkout\<close>

text \<open>The default export of \<^verbatim>\<open>src/pages/api/orders/index.ts\<close>.\<close>

definition orders_handler :: "'n runtime \<Rightarrow> 'n store \<Rightarrow> request \<Rightarrow> 'n response \<times> 'n store" where
  "orders_handler rt db req =
     (if req_method req \<noteq> ''POST'' then (Response 405 (Error ''Method not allowed''), db)
      else case session_user req of
        None \<Rightarrow> (Response 401 (Error ''Unauthorized''), db)
      | Some uid \<Rightarrow>
          (case cart_findUnique_include db uid of
             Inl e \<Rightarrow> (Response 500 (Error ''Failed to create order''), db)
           | Inr None \<Rightarrow> (Response 400 (Error ''Cart is empty''), db)
           | Inr (Some (c, its)) \<Rightarrow>
               if length its = 0 then (Response 400 (Error ''Cart is empty''), db)
               else
                 (let total = items_total rt its in
                  case cartItem_deleteMany db (cart_id c) of
                    Inl e \<Rightarrow> (Response 500 (Error ''Failed to create order''), db)
                  | Inr db' \<Rightarrow> (Response 200 (OrderJson True (toFixed2 rt total)), db'))))"

section \<open>Sequences of requests\<close>

text \<open>
  The store between requests: a request to the cart API, a request to the orders API, or
  the store becoming reachable or unreachable.
\<close>

datatype event = CartRequest request | OrderRequest request | Connectivity bool

fun step :: "'n runtime \<Rightarrow> 'n store \<Rightarrow> event \<Rightarrow> 'n store" where
  "step rt db (CartRequest req) = snd (handler rt db req)"
| "step rt db (OrderRequest req) = snd (orders_handler rt db req)"
| "step rt db (Connectivity b) = db\<lparr>connected := b\<rparr>"

definition run :: "'n runtime \<Rightarrow> 'n store \<Rightarrow> event list \<Rightarrow> 'n store" where
  "run rt db evs = foldl (step rt) db evs"

section \<open>Properties of a store\<close>

definition line_key :: "cartItem \<Rightarrow> row_id \<times> string" where
  "line_key it = (cartId it, productId it)"

definition unique_lines :: "'n store \<Rightarrow> bool" where
  "unique_lines db = distinct (map line_key (cartItems db))"

definition quantities_positive :: "'n store \<Rightarrow> bool" where
  "quantities_positive db = list_all (\<lambda>it. 1 \<le> quantity it) (cartItems db)"

text \<open>The lines of a cart for one product.\<close>

definition lines_for :: "'n store \<Rightarrow> row_id \<Rightarrow> string \<Rightarrow> cartItem list" where
  "lines_for db cid pid = filter (matches (ByCartId_ProductId cid pid)) (cartItems db)"

text \<open>
  The constraints that the store itself enforces: primary keys, the unique userId of a
  cart, the unique (cartId, productId) of a cart item, the foreign keys, and ids below
  the counter that generates them.
\<close>

definition integrity :: "'n store \<Rightarrow> bool" where
  "integrity db =
     (distinct (map product_id (products db)) \<and>
      distinct (map cart_id (carts db)) \<and>
      distinct (map userId (carts db)) \<and>
      distinct (map item_id (cartItems db)) \<and>
      unique_lines db \<and>
      list_all (\<lambda>c. userId c \<in> set (users db) \<and> cart_id c < nextId db) (carts db) \<and>
      list_all (\<lambda>it. cartId it \<in> set (map cart_id (carts db)) \<and>
                      productId it \<in> set (map product_id (products db)) \<and>
                      item_id it < nextId db) (cartItems db))"

text \<open>The cart row of a user, if there is one.\<close>

definition cart_of :: "'n store \<Rightarrow> string \<Rightarrow> cart option" where
  "cart_of db uid = find (\<lambda>c. userId c = uid) (carts db)"

text \<open>The quantity of a product in the cart of a user: 0 when there is no line.\<close>

definition line_quantity :: "'n store \<Rightarrow> string \<Rightarrow> string \<Rightarrow> int" where
  "line_quantity db uid pid =
     (case cart_of db uid of
        None \<Rightarrow> 0
      | Some c \<Rightarrow> (case lines_for db (cart_id c) pid of [] \<Rightarrow> 0 | l # _ \<Rightarrow> quantity l))"

section \<open>Example data\<close>

text \<open>
  A runtime on which the handlers can be evaluated by rewriting: exact arithmetic in
  the place of doubles, rounding half up to two decimals, and the shape of a cuid (a letter
  c, then at least eight characters, none of them a space or a hyphen).  The examples
  that use it have whole prices, on which doubles are exact; the numbers of the handlers
  themselves are the subject of the section on JavaScript numbers.
\<close>

definition example_runtime :: "real runtime" where
  "example_runtime =
     \<lparr>is_cuid = (\<lambda>s. case s of [] \<Rightarrow> False
                 | c # cs \<Rightarrow> (c = CHR ''c'' \<or> c = CHR ''C'') \<and> 8 \<le> length cs \<and>
                     list_all (\<lambda>x. x \<noteq> CHR '' '' \<and> x \<noteq> CHR ''-'') cs),
      num_of_int = of_int,
      num_add = (+),
      num_mul = (*),
      toFixed2 = (\<lambda>x. of_int \<lfloor>x * 100 + 1 / 2\<rfloor> / 100)\<rparr>"

definition product_P1 :: "real product" where
  "product_P1 = \<lparr>product_id = ''cproduct0001'', name = ''P1'', description = [],
                 price = 10, imageUrl = []\<rparr>"

definition product_P2 :: "real product" where
  "product_P2 = \<lparr>product_id = ''cproduct0002'', name = ''P2'', description = [],
                 price = 5, imageUrl = []\<rparr>"

definition cart_u1 :: cart where
  "cart_u1 = \<lparr>cart_id = 0, userId = ''u1''\<rparr>"

text \<open>A user without a cart row.\<close>

definition store_no_cart :: "real store" where
  "store_no_cart = \<lparr>users = [''u1''], products = [product_P1, product_P2], carts = [],
                    cartItems = [], nextId = 0, connected = True\<rparr>"

text \<open>State A of the scenarios: one line, two units of P1.\<close>

definition store_A :: "real store" where
  "store_A = \<lparr>users = [''u1''], products = [product_P1, product_P2], carts = [cart_u1],
              cartItems = [\<lparr>item_id = 1, quantity = 2, productId = ''cproduct0001'', cartId = 0\<rparr>],
              nextId = 2, connected = True\<rparr>"

text \<open>State B: the line of state A after one more unit.  State C: the line is gone.\<close>

definition store_B :: "real store" where
  "store_B = store_A\<lparr>cartItems :=
               [\<lparr>item_id = 1, quantity = 3, productId = ''cproduct0001'', cartId = 0\<rparr>]\<rparr>"

definition store_C :: "real store" where
  "store_C = store_A\<lparr>cartItems := []\<rparr>"

text \<open>State A with the largest quantity that the column holds.\<close>

definition store_max :: "real store" where
  "store_max = store_A\<lparr>cartItems :=
                 [\<lparr>item_id = 1, quantity = 2147483647, productId = ''cproduct0001'', cartId = 0\<rparr>]\<rparr>"

text \<open>The cart of scenario F: one unit of P1 and three of P2.\<close>

definition store_F :: "real store" where
  "store_F = \<lparr>users = [''u1''], products = [product_P1, product_P2], carts = [cart_u1],
              cartItems = [\<lparr>item_id = 1, quantity = 1, productId = ''cproduct0001'', cartId = 0\<rparr>,
                           \<lparr>item_id = 2, quantity = 3, productId = ''cproduct0002'', cartId = 0\<rparr>],
              nextId = 3, connected = True\<rparr>"

definition delta_body :: "string \<Rightarrow> real \<Rightarrow> jsval" where
  "delta_body pid q = JObj [(''productId'', JStr pid), (''quantity'', JNum q)]"

definition remove_body :: "string \<Rightarrow> jsval" where
  "remove_body pid = JObj [(''productId'', JStr pid)]"

definition post_as :: "string \<Rightarrow> jsval \<Rightarrow> request" where
  "post_as uid b = \<lparr>req_method = ''POST'', session_user = Some uid, body = b\<rparr>"

definition example_events :: "event list" where
  "example_events =
     [CartRequest (post_as ''u1'' (delta_body ''cproduct0001'' 2)),
      CartRequest (post_as ''u1'' (delta_body ''cproduct0001'' 1)),
      CartRequest (post_as ''u1'' (delta_body ''cproduct0001'' (- 5))),
      OrderRequest (post_as ''u1'' JUndefined)]"


section \<open>JavaScript numbers\<close>

text \<open>
  The numbers of the handlers are IEEE doubles: a finite double with its exact value, the
  two infinities, and NaN.  The two zeros are not told apart; no operation of the handlers
  depends on the sign of a zero.
\<close>

datatype number = Finite rat | PosInfinity | NegInfinity | NaN

text \<open>
  Rounding to the nearest double, ties to even.  \<open>ilog2 x\<close> is the binary exponent of
  a positive \<open>x\<close> (lemma \<open>ilog2_bounds\<close>).  A double is \<open>m * 2 powi e\<close> with a mantissa
  \<open>m\<close> of at most 53 bits and \<open>e\<close> at least -1074; the largest one is
  \<open>(2 ^ 53 - 1) * 2 powi 971\<close>, and what rounds to \<open>2 powi 1024\<close> or beyond is infinity
  (lemma \<open>round_positive_overflow\<close>).
\<close>

definition round_half_even :: "rat \<Rightarrow> int" where
  "round_half_even y =
     (let f = \<lfloor>y\<rfloor>; d = y - of_int f
      in if d < 1 / 2 then f else if 1 / 2 < d then f + 1 else if even f then f else f + 1)"

definition ilog2 :: "rat \<Rightarrow> int" where
  "ilog2 x =
     (let (p, q) = quotient_of x; k = bitlen p - bitlen q
      in if 2 powi k \<le> x then k else k - 1)"

definition round_positive :: "rat \<Rightarrow> number" where
  "round_positive x =
     (let e = max (ilog2 x - 52) (- 1074);
          m = round_half_even (x / 2 powi e)
      in if 971 < e \<or> e = 971 \<and> m = 2 ^ 53 then PosInfinity
         else Finite (of_int m * 2 powi e))"

definition negate :: "number \<Rightarrow> number" where
  "negate n = (case n of Finite x \<Rightarrow> Finite (- x) | PosInfinity \<Rightarrow> NegInfinity
               | NegInfinity \<Rightarrow> PosInfinity | NaN \<Rightarrow> NaN)"

definition round_double :: "rat \<Rightarrow> number" where
  "round_double x =
     (if x = 0 then Finite 0
      else if 0 < x then round_positive x
      else negate (round_positive (- x)))"

text \<open>
  \<^verbatim>\<open>a + b\<close> and \<^verbatim>\<open>a * b\<close>: the exact result, rounded.  A cart item's quantity
  is an integer of the store, converted to a number.
\<close>

fun js_add :: "number \<Rightarrow> number \<Rightarrow> number" where
  "js_add (Finite a) (Finite b) = round_double (a + b)"
| "js_add NaN _ = NaN"
| "js_add _ NaN = NaN"
| "js_add PosInfinity NegInfinity = NaN"
| "js_add NegInfinity PosInfinity = NaN"
| "js_add PosInfinity _ = PosInfinity"
| "js_add _ PosInfinity = PosInfinity"
| "js_add NegInfinity _ = NegInfinity"
| "js_add _ NegInfinity = NegInfinity"

definition infinity_of_sign :: "rat \<Rightarrow> number" where
  "infinity_of_sign s = (if s = 0 then NaN else if 0 < s then PosInfinity else NegInfinity)"

fun js_mul :: "number \<Rightarrow> number \<Rightarrow> number" where
  "js_mul (Finite a) (Finite b) = round_double (a * b)"
| "js_mul NaN _ = NaN"
| "js_mul _ NaN = NaN"
| "js_mul PosInfinity (Finite b) = infinity_of_sign b"
| "js_mul NegInfinity (Finite b) = infinity_of_sign (- b)"
| "js_mul (Finite a) PosInfinity = infinity_of_sign a"
| "js_mul (Finite a) NegInfinity = infinity_of_sign (- a)"
| "js_mul PosInfinity PosInfinity = PosInfinity"
| "js_mul NegInfinity NegInfinity = PosInfinity"
| "js_mul PosInfinity NegInfinity = NegInfinity"
| "js_mul NegInfinity PosInfinity = NegInfinity"

definition js_of_int :: "int \<Rightarrow> number" where
  "js_of_int i = round_double (of_int i)"

text \<open>
  \<^verbatim>\<open>parseFloat(x.toFixed(2))\<close>.  For a finite \<open>x\<close> below \<open>10 ^ 21\<close> in magnitude,
  \<^verbatim>\<open>toFixed(2)\<close> writes the integer \<open>n\<close> for which \<open>n / 100\<close> is nearest to the exact
  value of \<open>x\<close>, the larger one of two, with the sign in front, and \<^verbatim>\<open>parseFloat\<close>
  reads the nearest double back.  Otherwise \<^verbatim>\<open>toFixed\<close> writes the number as
  \<^verbatim>\<open>toString\<close> does, which \<^verbatim>\<open>parseFloat\<close> reads back unchanged.
\<close>

definition js_toFixed2 :: "number \<Rightarrow> number" where
  "js_toFixed2 n =
     (case n of
        Finite x \<Rightarrow>
          if 10 ^ 21 \<le> \<bar>x\<bar> then Finite x
          else round_double (sgn x * of_int \<lfloor>\<bar>x\<bar> * 100 + 1 / 2\<rfloor> / 100)
      | _ \<Rightarrow> n)"

text \<open>
  The runtime of the handlers, with the test for a cuid as in the example runtime.
\<close>

definition js_runtime :: "number runtime" where
  "js_runtime =
     \<lparr>is_cuid = is_cuid example_runtime,
      num_of_int = js_of_int,
      num_add = js_add,
      num_mul = js_mul,
      toFixed2 = js_toFixed2\<rparr>"

text \<open>
  The step of the \<^verbatim>\<open>reduce\<close> that computes the total, on this runtime.
\<close>

abbreviation add_line :: "number \<Rightarrow> cartItem \<times> number product \<Rightarrow> number" where
  "add_line \<equiv> (\<lambda>sum item. js_add sum (js_mul (price (snd item)) (js_of_int (quantity (fst item)))))"

text \<open>
  The total in the words of the specification (section 4.3): the sum over all lines of the
  price times the quantity, in exact arithmetic, rounded half up to two decimals.
\<close>

definition exact_sum :: "(cartItem \<times> number product) list \<Rightarrow> rat" where
  "exact_sum its =
     sum_list (map (\<lambda>(it, p). (case price p of Finite x \<Rightarrow> x | _ \<Rightarrow> 0) * of_int (quantity it)) its)"

definition round_2_decimals :: "rat \<Rightarrow> rat" where
  "round_2_decimals x = of_int \<lfloor>x * 100 + 1 / 2\<rfloor> / 100"

definition spec_total :: "(cartItem \<times> number product) list \<Rightarrow> rat" where
  "spec_total its = round_2_decimals (exact_sum its)"

text \<open>
  A number that is not negative: a finite one that is at least 0, or infinity.  A line with
  a finite price that is not negative, and a quantity that is not negative and in the range of
  its column.
\<close>

definition not_negative :: "number \<Rightarrow> bool" where
  "not_negative n = (case n of Finite x \<Rightarrow> 0 \<le> x | PosInfinity \<Rightarrow> True | _ \<Rightarrow> False)"

definition nonneg_line :: "cartItem \<times> number product \<Rightarrow> bool" where
  "nonneg_line l =
     (case price (snd l) of
        Finite x \<Rightarrow> 0 \<le> x \<and> 0 \<le> quantity (fst l) \<and> int32 (quantity (fst l))
      | _ \<Rightarrow> False)"

text \<open>
  The lines whose total suffers no rounding: from the sum \<open>acc\<close> on, every product and
  every partial sum is a double.
\<close>

fun exact_from :: "rat \<Rightarrow> (cartItem \<times> number product) list \<Rightarrow> bool" where
  "exact_from acc [] = True"
| "exact_from acc (l # ls) =
     (case price (snd l) of
        Finite x \<Rightarrow>
          (let t = x * of_int (quantity (fst l))
           in round_double t = Finite t \<and> round_double (acc + t) = Finite (acc + t) \<and>
              exact_from (acc + t) ls)
      | _ \<Rightarrow> False)"

text \<open>
  Three units of a product whose price is the double nearest to 0.005, and the lines of
  scenario F.
\<close>

definition half_cent_lines :: "(cartItem \<times> number product) list" where
  "half_cent_lines =
     [(\<lparr>item_id = 1, quantity = 3, productId = ''cproduct0003'', cartId = 0\<rparr>,
       \<lparr>product_id = ''cproduct0003'', name = ''P3'', description = [],
         price = round_double (5 / 1000), imageUrl = []\<rparr>)]"

definition lines_F :: "(cartItem \<times> number product) list" where
  "lines_F =
     [(\<lparr>item_id = 1, quantity = 1, productId = ''cproduct0001'', cartId = 0\<rparr>,
       \<lparr>product_id = ''cproduct0001'', name = ''P1'', description = [], price = Finite 10, imageUrl = []\<rparr>),
      (\<lparr>item_id = 2, quantity = 3, productId = ''cproduct0002'', cartId = 0\<rparr>,
       \<lparr>product_id = ''cproduct0002'', name = ''P2'', description = [], price = Finite 5, imageUrl = []\<rparr>)]"

section \<open>Lemmas\<close>


lemma snd_respond_updatedCart [simp]: "snd (respond_updatedCart rt f db uid) = db"
  by (simp add: respond_updatedCart_def split: sum.splits option.splits prod.splits)

lemma line_key_quantity [simp]: "line_key (it\<lparr>quantity := q\<rparr>) = line_key it"
  by (simp add: line_key_def)

lemma matches_key: "matches (ByCartId_ProductId c p) it = (line_key it = (c, p))"
  by (auto simp: line_key_def)

lemma find_None_key:
  "find (matches (ByCartId_ProductId c p)) xs = None \<Longrightarrow> (c, p) \<notin> set (map line_key xs)"
  by (auto simp: find_None_iff line_key_def)

lemma map_key_update:
  "map (line_key \<circ> (\<lambda>it. if P it then it\<lparr>quantity := f it\<rparr> else it)) xs = map line_key xs"
  by (induction xs) auto

lemma find_Some_key:
  "find (matches (ByCartId_ProductId c p)) xs = Some a \<Longrightarrow> (c, p) \<in> set (map line_key xs)"
  by (auto simp: find_Some_iff line_key_def)

lemma upsert_items:
  assumes "cartItem_upsert db cid pid inc qty = Inr db'"
  shows "cartItems db' =
     (if (cid, pid) \<in> set (map line_key (cartItems db))
      then map (\<lambda>it. if line_key it = (cid, pid) then it\<lparr>quantity := quantity it + inc\<rparr> else it)
             (cartItems db)
      else cartItems db @ [\<lparr>item_id = nextId db, quantity = qty, productId = pid, cartId = cid\<rparr>])"
proof (cases "find (matches (ByCartId_ProductId cid pid)) (cartItems db)")
  case None
  from find_None_key[OF None] assms None show ?thesis
    by (auto simp: cartItem_upsert_def split: if_splits)
next
  case (Some a)
  from find_Some_key[OF Some] assms Some show ?thesis
    by (auto simp: cartItem_upsert_def matches_key simp del: matches.simps split: if_splits)
qed

lemma upsert_unique:
  assumes "cartItem_upsert db cid pid inc qty = Inr db'" "unique_lines db"
  shows "unique_lines db'"
  using assms(2) unfolding unique_lines_def upsert_items[OF assms(1)]
  by (auto simp: map_key_update) (simp add: line_key_def)

lemma update_unique:
  "cartItem_update db w qty = Inr db' \<Longrightarrow> unique_lines db \<Longrightarrow> unique_lines db'"
  by (auto simp: cartItem_update_def unique_lines_def map_key_update simp del: matches.simps split: if_splits)

lemma delete_unique:
  "cartItem_delete db w = Inr db' \<Longrightarrow> unique_lines db \<Longrightarrow> unique_lines db'"
  by (auto simp: cartItem_delete_def unique_lines_def distinct_map_filter split: if_splits)

lemma deleteMany_unique:
  "cartItem_deleteMany db cid = Inr db' \<Longrightarrow> unique_lines db \<Longrightarrow> unique_lines db'"
  by (auto simp: cartItem_deleteMany_def unique_lines_def distinct_map_filter split: if_splits)

lemma create_unique:
  "cart_create db uid = Inr (c, db') \<Longrightarrow> unique_lines db \<Longrightarrow> unique_lines db'"
  by (auto simp: cart_create_def unique_lines_def Let_def split: if_splits)

lemma adjust_item_unique:
  "unique_lines db \<Longrightarrow> unique_lines (snd (adjust_item rt db c pid qty uid))"
  by (auto simp: adjust_item_def Let_def split: sum.splits option.splits
      dest: upsert_unique update_unique delete_unique)

lemma handleAddToCart_unique:
  "unique_lines db \<Longrightarrow> unique_lines (snd (handleAddToCart rt db b uid))"
  by (auto simp: handleAddToCart_def split: sum.splits option.splits prod.splits
      intro: adjust_item_unique dest: create_unique)

lemma handleRemoveFromCart_unique:
  "unique_lines db \<Longrightarrow> unique_lines (snd (handleRemoveFromCart rt db b uid))"
  by (auto simp: handleRemoveFromCart_def split: sum.splits option.splits jsval.splits
      dest: delete_unique)

lemma snd_handleGetCart [simp]: "snd (handleGetCart rt db uid) = db"
  by (simp add: handleGetCart_def split: sum.splits option.splits prod.splits)

lemma handler_unique:
  "unique_lines db \<Longrightarrow> unique_lines (snd (handler rt db req))"
  by (auto simp: handler_def split: option.splits
      intro: handleAddToCart_unique handleRemoveFromCart_unique)

lemma orders_handler_unique:
  "unique_lines db \<Longrightarrow> unique_lines (snd (orders_handler rt db req))"
  by (auto simp: orders_handler_def Let_def split: sum.splits option.splits prod.splits
      dest: deleteMany_unique)

lemma step_unique: "unique_lines db \<Longrightarrow> unique_lines (step rt db ev)"
  by (cases ev) (auto simp: unique_lines_def[of "db\<lparr>connected := _\<rparr>"] unique_lines_def[of db]
      intro: handler_unique orders_handler_unique)

lemma run_unique: "unique_lines db \<Longrightarrow> unique_lines (run rt db evs)"
  unfolding run_def by (induction evs arbitrary: db) (auto intro: step_unique)

subsection \<open>Quantities\<close>

lemma upsert_positive:
  assumes "cartItem_upsert db cid pid inc qty = Inr db'" "quantities_positive db" "0 < inc" "0 < qty"
  shows "quantities_positive db'"
  using assms(2-) unfolding quantities_positive_def upsert_items[OF assms(1)]
  by (auto simp: list_all_iff)

lemma update_positive:
  "cartItem_update db w qty = Inr db' \<Longrightarrow> quantities_positive db \<Longrightarrow> 0 < qty \<Longrightarrow>
   quantities_positive db'"
  by (auto simp: cartItem_update_def quantities_positive_def list_all_iff
      simp del: matches.simps split: if_splits)

lemma delete_positive:
  "cartItem_delete db w = Inr db' \<Longrightarrow> quantities_positive db \<Longrightarrow> quantities_positive db'"
  by (auto simp: cartItem_delete_def quantities_positive_def list_all_iff split: if_splits)

lemma deleteMany_positive:
  "cartItem_deleteMany db cid = Inr db' \<Longrightarrow> quantities_positive db \<Longrightarrow> quantities_positive db'"
  by (auto simp: cartItem_deleteMany_def quantities_positive_def list_all_iff split: if_splits)

lemma create_positive:
  "cart_create db uid = Inr (c, db') \<Longrightarrow> quantities_positive db \<Longrightarrow> quantities_positive db'"
  by (auto simp: cart_create_def quantities_positive_def Let_def split: if_splits)

lemma adjust_item_positive:
  "quantities_positive db \<Longrightarrow> quantities_positive (snd (adjust_item rt db c pid qty uid))"
  by (auto simp: adjust_item_def Let_def split: sum.splits option.splits
      dest: upsert_positive update_positive delete_positive)

lemma handleAddToCart_positive:
  "quantities_positive db \<Longrightarrow> quantities_positive (snd (handleAddToCart rt db b uid))"
  by (auto simp: handleAddToCart_def split: sum.splits option.splits prod.splits
      intro: adjust_item_positive dest: create_positive)

lemma handleRemoveFromCart_positive:
  "quantities_positive db \<Longrightarrow> quantities_positive (snd (handleRemoveFromCart rt db b uid))"
  by (auto simp: handleRemoveFromCart_def split: sum.splits option.splits jsval.splits
      dest: delete_positive)

lemma handler_positive:
  "quantities_positive db \<Longrightarrow> quantities_positive (snd (handler rt db req))"
  by (auto simp: handler_def split: option.splits
      intro: handleAddToCart_positive handleRemoveFromCart_positive)

lemma orders_handler_positive:
  "quantities_positive db \<Longrightarrow> quantities_positive (snd (orders_handler rt db req))"
  by (auto simp: orders_handler_def Let_def split: sum.splits option.splits prod.splits
      dest: deleteMany_positive)

lemma step_positive: "quantities_positive db \<Longrightarrow> quantities_positive (step rt db ev)"
  by (cases ev) (auto simp: quantities_positive_def[of "db\<lparr>connected := _\<rparr>"] quantities_positive_def[of db]
      intro: handler_positive orders_handler_positive)

lemma run_positive: "quantities_positive db \<Longrightarrow> quantities_positive (run rt db evs)"
  unfolding run_def by (induction evs arbitrary: db) (auto intro: step_positive)

subsection \<open>Integrity\<close>

lemma map_quantity_update:
  assumes "\<And>it q. g (it\<lparr>quantity := q\<rparr>) = g it"
  shows "map (g \<circ> (\<lambda>it. if P it then it\<lparr>quantity := f it\<rparr> else it)) xs = map g xs"
  by (induction xs) (auto simp: assms)

lemma upsert_Inr:
  assumes "cartItem_upsert db cid pid inc qty = Inr db'"
  shows "connected db"
    and "(cid, pid) \<in> set (map line_key (cartItems db)) \<Longrightarrow>
         db' = db\<lparr>cartItems := map (\<lambda>it. if line_key it = (cid, pid)
                                          then it\<lparr>quantity := quantity it + inc\<rparr> else it)
                                   (cartItems db)\<rparr>"
    and "(cid, pid) \<notin> set (map line_key (cartItems db)) \<Longrightarrow>
         db' = db\<lparr>cartItems := cartItems db @
                      [\<lparr>item_id = nextId db, quantity = qty, productId = pid, cartId = cid\<rparr>],
                    nextId := Suc (nextId db)\<rparr> \<and>
         cid \<in> set (map cart_id (carts db)) \<and> pid \<in> set (map product_id (products db))"
proof -
  show "connected db" using assms by (auto simp: cartItem_upsert_def split: if_splits)
next
  assume k: "(cid, pid) \<in> set (map line_key (cartItems db))"
  then obtain a where "find (matches (ByCartId_ProductId cid pid)) (cartItems db) = Some a"
    using find_None_key[of cid pid "cartItems db"] by (cases "find (matches (ByCartId_ProductId cid pid)) (cartItems db)") auto
  with assms show "db' = db\<lparr>cartItems := map (\<lambda>it. if line_key it = (cid, pid)
                                          then it\<lparr>quantity := quantity it + inc\<rparr> else it)
                                   (cartItems db)\<rparr>"
    by (auto simp: cartItem_upsert_def matches_key simp del: matches.simps split: if_splits)
next
  assume k: "(cid, pid) \<notin> set (map line_key (cartItems db))"
  then have "find (matches (ByCartId_ProductId cid pid)) (cartItems db) = None"
    using find_Some_key[of cid pid "cartItems db"] by (cases "find (matches (ByCartId_ProductId cid pid)) (cartItems db)") auto
  with assms show "db' = db\<lparr>cartItems := cartItems db @
                      [\<lparr>item_id = nextId db, quantity = qty, productId = pid, cartId = cid\<rparr>],
                    nextId := Suc (nextId db)\<rparr> \<and>
         cid \<in> set (map cart_id (carts db)) \<and> pid \<in> set (map product_id (products db))"
    by (auto simp: cartItem_upsert_def split: if_splits)
qed

lemma upsert_integrity:
  assumes "cartItem_upsert db cid pid inc qty = Inr db'" "integrity db"
  shows "integrity db'"
proof (cases "(cid, pid) \<in> set (map line_key (cartItems db))")
  case True
  show ?thesis
    using assms(2) unfolding upsert_Inr(2)[OF assms(1) True] integrity_def unique_lines_def
    by (auto simp: map_quantity_update line_key_def list_all_iff)
next
  case False
  from upsert_Inr(3)[OF assms(1) False]
  have d: "db' = db\<lparr>cartItems := cartItems db @
                      [\<lparr>item_id = nextId db, quantity = qty, productId = pid, cartId = cid\<rparr>],
                    nextId := Suc (nextId db)\<rparr>"
    and c: "cid \<in> set (map cart_id (carts db))" and p: "pid \<in> set (map product_id (products db))"
    by auto
  have k: "line_key \<lparr>item_id = nextId db, quantity = qty, productId = pid, cartId = cid\<rparr> = (cid, pid)"
    by (simp add: line_key_def)
  show ?thesis
    using assms(2) False c p unfolding d integrity_def unique_lines_def
    by (auto simp: k list_all_iff less_Suc_eq)
qed

lemma update_Inr:
  assumes "cartItem_update db w qty = Inr db'"
  shows "connected db"
    and "db' = db\<lparr>cartItems := map (\<lambda>it. if matches w it then it\<lparr>quantity := qty\<rparr> else it) (cartItems db)\<rparr>"
  using assms by (auto simp: cartItem_update_def split: if_splits)

lemma update_integrity:
  assumes "cartItem_update db w qty = Inr db'" "integrity db"
  shows "integrity db'"
  using assms(2) unfolding update_Inr(2)[OF assms(1)] integrity_def unique_lines_def
  by (auto simp: map_quantity_update line_key_def list_all_iff)

lemma delete_Inr:
  assumes "cartItem_delete db w = Inr db'"
  shows "connected db"
    and "db' = db\<lparr>cartItems := filter (\<lambda>it. \<not> matches w it) (cartItems db)\<rparr>"
    and "\<exists>a. find (matches w) (cartItems db) = Some a"
  using assms by (auto simp: cartItem_delete_def split: if_splits)

lemma delete_integrity:
  assumes "cartItem_delete db w = Inr db'" "integrity db"
  shows "integrity db'"
  using assms(2) unfolding delete_Inr(2)[OF assms(1)] integrity_def unique_lines_def
  by (simp add: distinct_map_filter list_all_iff)

lemma deleteMany_integrity:
  assumes "cartItem_deleteMany db cid = Inr db'" "integrity db"
  shows "integrity db'"
proof -
  have "db' = db\<lparr>cartItems := filter (\<lambda>it. cartId it \<noteq> cid) (cartItems db)\<rparr>"
    using assms(1) by (auto simp: cartItem_deleteMany_def split: if_splits)
  then show ?thesis using assms(2) unfolding integrity_def unique_lines_def
    by (simp add: distinct_map_filter list_all_iff)
qed

lemma create_Inr:
  assumes "cart_create db uid = Inr (c, db')"
  shows "connected db" and "c = \<lparr>cart_id = nextId db, userId = uid\<rparr>"
    and "db' = db\<lparr>carts := carts db @ [c], nextId := Suc (nextId db)\<rparr>"
    and "uid \<in> set (users db)" and "uid \<notin> set (map userId (carts db))"
  using assms by (auto simp: cart_create_def Let_def split: if_splits)

lemma create_integrity:
  assumes "cart_create db uid = Inr (c, db')" "integrity db"
  shows "integrity db'"
  using assms(2) create_Inr(4,5)[OF assms(1)]
  unfolding create_Inr(3)[OF assms(1)] create_Inr(2)[OF assms(1)] integrity_def unique_lines_def
  by (auto simp: list_all_iff less_Suc_eq)

text \<open>
  The handlers keep the constraints of the store, so the stores that a sequence of
  requests reaches from a store that meets them meet them too.
\<close>

lemma adjust_item_integrity:
  "integrity db \<Longrightarrow> integrity (snd (adjust_item rt db c pid qty uid))"
  by (auto simp: adjust_item_def Let_def split: sum.splits option.splits
      dest: upsert_integrity update_integrity delete_integrity)

lemma handleAddToCart_integrity:
  "integrity db \<Longrightarrow> integrity (snd (handleAddToCart rt db b uid))"
  by (auto simp: handleAddToCart_def split: sum.splits option.splits prod.splits
      intro: adjust_item_integrity dest: create_integrity)

lemma handleRemoveFromCart_integrity:
  "integrity db \<Longrightarrow> integrity (snd (handleRemoveFromCart rt db b uid))"
  by (auto simp: handleRemoveFromCart_def split: sum.splits option.splits jsval.splits
      dest: delete_integrity)

lemma handler_integrity:
  "integrity db \<Longrightarrow> integrity (snd (handler rt db req))"
  by (auto simp: handler_def split: option.splits
      intro: handleAddToCart_integrity handleRemoveFromCart_integrity)

lemma orders_handler_integrity:
  "integrity db \<Longrightarrow> integrity (snd (orders_handler rt db req))"
  by (auto simp: orders_handler_def Let_def split: sum.splits option.splits prod.splits
      dest: deleteMany_integrity)

lemma step_integrity: "integrity db \<Longrightarrow> integrity (step rt db ev)"
proof (cases ev)
  case (Connectivity b)
  assume "integrity db"
  then have "integrity (db\<lparr>connected := b\<rparr>)" by (simp add: integrity_def unique_lines_def)
  with Connectivity show ?thesis by simp
qed (auto intro: handler_integrity orders_handler_integrity)

lemma run_integrity: "integrity db \<Longrightarrow> integrity (run rt db evs)"
  unfolding run_def by (induction evs arbitrary: db) (auto intro: step_integrity)

subsection \<open>Reading a cart with its items\<close>


lemma find_product:
  "pid \<in> set (map product_id ps) \<Longrightarrow> \<exists>p. find (\<lambda>p. product_id p = pid) ps = Some p"
  by (cases "find (\<lambda>p. product_id p = pid) ps") (auto simp: find_None_iff)

lemma include_product_ok:
  "list_all (\<lambda>it. productId it \<in> set (map product_id ps)) its \<Longrightarrow>
   \<exists>r. include_product ps its = Inr r \<and> map fst r = its"
proof (induction its)
  case Nil
  then show ?case by simp
next
  case (Cons it its)
  then obtain r where r: "include_product ps its = Inr r" "map fst r = its" by auto
  from Cons.prems obtain p where "find (\<lambda>p. product_id p = productId it) ps = Some p"
    using find_product[of "productId it" ps] by auto
  with r show ?case by simp
qed

lemma cart_of_Some: "cart_of db uid = Some c \<Longrightarrow> c \<in> set (carts db) \<and> userId c = uid"
  by (auto simp: cart_of_def find_Some_iff)

lemma cart_of_None: "cart_of db uid = None \<longleftrightarrow> uid \<notin> set (map userId (carts db))"
  by (auto simp: cart_of_def find_None_iff)

lemma findUnique_include_ok:
  assumes "integrity db" "connected db" "cart_of db uid = Some c"
  shows "\<exists>its. cart_findUnique_include db uid = Inr (Some (c, its)) \<and>
               map fst its = cart_items db (cart_id c)"
proof -
  have "list_all (\<lambda>it. productId it \<in> set (map product_id (products db))) (cart_items db (cart_id c))"
    using assms(1) by (auto simp: integrity_def cart_items_def list_all_iff)
  from include_product_ok[OF this] obtain its where
    "include_product (products db) (cart_items db (cart_id c)) = Inr its"
    "map fst its = cart_items db (cart_id c)" by auto
  with assms(2,3) show ?thesis by (simp add: cart_findUnique_include_def cart_of_def)
qed

lemma respond_updatedCart_ok:
  assumes "integrity db" "connected db" "cart_of db uid = Some c"
  shows "\<exists>its. respond_updatedCart rt f db uid =
                 (Response 200 (CartJson c its (toFixed2 rt (items_total rt its))), db) \<and>
               map fst its = cart_items db (cart_id c)"
  using findUnique_include_ok[OF assms] by (auto simp: respond_updatedCart_def)

subsection \<open>The lines of one product in one cart\<close>

lemma lines_for_key: "lines_for db cid pid = filter (\<lambda>it. line_key it = (cid, pid)) (cartItems db)"
  unfolding lines_for_def by (rule filter_cong) (auto simp: line_key_def)

lemma lines_for_single:
  "lines_for db cid pid = l # ls \<Longrightarrow> line_key l = (cid, pid) \<and> l \<in> set (cartItems db)"
proof -
  assume a: "lines_for db cid pid = l # ls"
  have "l \<in> set (lines_for db cid pid)" unfolding a by simp
  then show ?thesis unfolding lines_for_key by simp
qed

lemma distinct_filter_key:
  "distinct (map f xs) \<Longrightarrow> filter (\<lambda>x. f x = k) xs = [] \<or> (\<exists>l. filter (\<lambda>x. f x = k) xs = [l])"
proof (induction xs)
  case Nil
  then show ?case by simp
next
  case (Cons x xs)
  show ?case
  proof (cases "f x = k")
    case True
    with Cons.prems have "k \<notin> f ` set xs" by auto
    then have "filter (\<lambda>x. f x = k) xs = []" by (auto simp: filter_empty_conv)
    with True show ?thesis by simp
  next
    case False
    with Cons show ?thesis by simp
  qed
qed

lemma lines_for_cases:
  "unique_lines db \<Longrightarrow> lines_for db cid pid = [] \<or> (\<exists>l. lines_for db cid pid = [l])"
  unfolding unique_lines_def lines_for_key by (rule distinct_filter_key)

lemma lines_for_find:
  "find (matches (ByCartId_ProductId cid pid)) (cartItems db) =
     (case lines_for db cid pid of [] \<Rightarrow> None | l # _ \<Rightarrow> Some l)"
proof -
  have "find P xs = (case filter P xs of [] \<Rightarrow> None | l # _ \<Rightarrow> Some l)" for P and xs :: "cartItem list"
    by (induction xs) auto
  then show ?thesis unfolding lines_for_def .
qed

subsection \<open>Adjusting an item\<close>

lemma upsert_succeeds:
  assumes "connected db" "cid \<in> set (map cart_id (carts db))" "pid \<in> set (map product_id (products db))"
    "int32 inc" "int32 qty"
    "case lines_for db cid pid of [] \<Rightarrow> True | l # _ \<Rightarrow> int32 (quantity l + inc)"
  shows "\<exists>db'. cartItem_upsert db cid pid inc qty = Inr db'"
  using assms
  by (auto simp: cartItem_upsert_def lines_for_find simp del: matches.simps
      split: option.splits list.splits)

lemma filter_key_update:
  "filter (\<lambda>it. line_key it = k) (map (\<lambda>it. if P it then it\<lparr>quantity := f it\<rparr> else it) xs) =
   map (\<lambda>it. if P it then it\<lparr>quantity := f it\<rparr> else it) (filter (\<lambda>it. line_key it = k) xs)"
  by (induction xs) auto

lemma filter_other_update:
  "filter (\<lambda>it. line_key it \<noteq> k) (map (\<lambda>it. if line_key it = k then it\<lparr>quantity := f it\<rparr> else it) xs) =
   filter (\<lambda>it. line_key it \<noteq> k) xs"
  by (induction xs) auto

lemma adjust_item_positive_delta:
  assumes "integrity db" "connected db" "cart_of db uid = Some c"
    "pid \<in> set (map product_id (products db))" "0 < qty" "int32 qty"
    "case lines_for db (cart_id c) pid of [] \<Rightarrow> True | l # _ \<Rightarrow> int32 (quantity l + qty)"
  shows "\<exists>r db'. adjust_item rt db c pid qty uid = (r, db') \<and> status r = 200 \<and>
           integrity db' \<and> carts db' = carts db \<and>
           map quantity (lines_for db' (cart_id c) pid) =
             (case lines_for db (cart_id c) pid of [] \<Rightarrow> [qty] | l # _ \<Rightarrow> [quantity l + qty]) \<and>
           filter (\<lambda>it. line_key it \<noteq> (cart_id c, pid)) (cartItems db') =
           filter (\<lambda>it. line_key it \<noteq> (cart_id c, pid)) (cartItems db)"
proof -
  let ?cid = "cart_id c"
  have cin: "?cid \<in> set (map cart_id (carts db))" using cart_of_Some[OF assms(3)] by auto
  from upsert_succeeds[OF assms(2) cin assms(4) assms(6) assms(6) assms(7)] obtain db' where
    up: "cartItem_upsert db ?cid pid qty qty = Inr db'" by blast
  have int': "integrity db'" by (rule upsert_integrity[OF up assms(1)])
  have uniq: "unique_lines db" using assms(1) by (simp add: integrity_def)
  have frame: "carts db' = carts db \<and> connected db' \<and>
      map quantity (lines_for db' ?cid pid) =
             (case lines_for db ?cid pid of [] \<Rightarrow> [qty] | l # _ \<Rightarrow> [quantity l + qty]) \<and>
      filter (\<lambda>it. line_key it \<noteq> (?cid, pid)) (cartItems db') =
      filter (\<lambda>it. line_key it \<noteq> (?cid, pid)) (cartItems db)"
  proof (cases "(?cid, pid) \<in> set (map line_key (cartItems db))")
    case True
    then have "lines_for db ?cid pid \<noteq> []" by (auto simp: lines_for_key filter_empty_conv)
    with lines_for_cases[OF uniq, of ?cid pid] obtain l where l: "lines_for db ?cid pid = [l]" by auto
    show ?thesis
      unfolding upsert_Inr(2)[OF up True] using assms(2) l lines_for_single[OF l]
      by (simp add: lines_for_key filter_key_update filter_other_update)
  next
    case False
    then have e: "lines_for db ?cid pid = []" by (force simp: lines_for_key filter_empty_conv)
    have k: "line_key \<lparr>item_id = nextId db, quantity = qty, productId = pid, cartId = ?cid\<rparr> = (?cid, pid)"
      by (simp add: line_key_def)
    from upsert_Inr(3)[OF up False]
    have d: "db' = db\<lparr>cartItems := cartItems db @
                      [\<lparr>item_id = nextId db, quantity = qty, productId = pid, cartId = ?cid\<rparr>],
                    nextId := Suc (nextId db)\<rparr>" by simp
    show ?thesis using assms(2) e unfolding d by (simp add: lines_for_key k)
  qed
  then have c': "cart_of db' uid = Some c" "connected db'" using assms(3) by (simp_all add: cart_of_def)
  from respond_updatedCart_ok[OF int' c'(2) c'(1)] obtain its where
    "respond_updatedCart rt ''Failed to add to cart'' db' uid =
       (Response 200 (CartJson c its (toFixed2 rt (items_total rt its))), db')" by blast
  with up assms(5) frame int' show ?thesis by (simp add: adjust_item_def)
qed

lemma filter_other_update_guarded:
  assumes "\<And>it. it \<in> set xs \<Longrightarrow> P it \<Longrightarrow> line_key it = k"
  shows "filter (\<lambda>it. line_key it \<noteq> k) (map (\<lambda>it. if P it then it\<lparr>quantity := f it\<rparr> else it) xs) =
         filter (\<lambda>it. line_key it \<noteq> k) xs"
  using assms by (induction xs) auto

lemma same_id_same_item:
  assumes "integrity db" "l \<in> set (cartItems db)" "it \<in> set (cartItems db)" "item_id it = item_id l"
  shows "it = l"
proof -
  have "inj_on item_id (set (cartItems db))"
    using assms(1) by (simp add: integrity_def distinct_map)
  with assms(2-) show ?thesis by (auto dest: inj_onD)
qed

lemma adjust_item_negative_delta:
  assumes "integrity db" "connected db" "cart_of db uid = Some c" "qty < 0"
  shows "\<exists>r db'. adjust_item rt db c pid qty uid = (r, db') \<and>
           integrity db' \<and> carts db' = carts db \<and>
           filter (\<lambda>it. line_key it \<noteq> (cart_id c, pid)) (cartItems db') =
           filter (\<lambda>it. line_key it \<noteq> (cart_id c, pid)) (cartItems db) \<and>
           (case lines_for db (cart_id c) pid of
              [] \<Rightarrow> r = Response 400 (Error ''Cart item not found'') \<and> db' = db
            | l # _ \<Rightarrow> status r = 200 \<and>
                (if 0 < quantity l + qty
                 then lines_for db' (cart_id c) pid = [l\<lparr>quantity := quantity l + qty\<rparr>]
                 else lines_for db' (cart_id c) pid = []))"
proof -
  let ?cid = "cart_id c"
  let ?k = "(?cid, pid)"
  have uniq: "unique_lines db" using assms(1) by (simp add: integrity_def)
  have fu: "cartItem_findUnique db (ByCartId_ProductId ?cid pid) =
      Inr (case lines_for db ?cid pid of [] \<Rightarrow> None | l # _ \<Rightarrow> Some l)"
    using assms(2) by (simp add: cartItem_findUnique_def lines_for_find)
  show ?thesis
  proof (cases "lines_for db ?cid pid")
    case Nil
    with fu assms(1,4) show ?thesis by (simp add: adjust_item_def)
  next
    case (Cons l ls)
    with lines_for_cases[OF uniq, of ?cid pid] have l: "lines_for db ?cid pid = [l]" by simp
    from lines_for_single[OF l] have lk: "line_key l = ?k" and lin: "l \<in> set (cartItems db)" by auto
    have found: "find (matches (ById (item_id l))) (cartItems db) \<noteq> None"
      using lin by (auto simp: find_None_iff)
    have only: "\<And>it. it \<in> set (cartItems db) \<Longrightarrow> matches (ById (item_id l)) it \<Longrightarrow> it = l"
      using same_id_same_item[OF assms(1) lin] by simp
    show ?thesis
    proof (cases "0 < quantity l + qty")
      case True
      obtain db' where db': "db' = db\<lparr>cartItems :=
          map (\<lambda>it. if matches (ById (item_id l)) it then it\<lparr>quantity := quantity l + qty\<rparr> else it)
              (cartItems db)\<rparr>" by simp
      have up: "cartItem_update db (ById (item_id l)) (quantity l + qty) = Inr db'"
        using assms(2) found db' by (simp add: cartItem_update_def del: matches.simps)
      have int': "integrity db'" by (rule update_integrity[OF up assms(1)])
      have c': "cart_of db' uid = Some c" "connected db'" "carts db' = carts db"
        using assms(2,3) db' by (simp_all add: cart_of_def)
      have lines: "lines_for db' ?cid pid = [l\<lparr>quantity := quantity l + qty\<rparr>]"
        using l unfolding lines_for_key db' by (simp add: filter_key_update)
      have other: "filter (\<lambda>it. line_key it \<noteq> ?k) (cartItems db') =
                   filter (\<lambda>it. line_key it \<noteq> ?k) (cartItems db)"
        unfolding db' using only lk
        by (simp del: matches.simps) (rule filter_other_update_guarded, auto)
      from respond_updatedCart_ok[OF int' c'(2) c'(1)] obtain its where
        "respond_updatedCart rt ''Failed to add to cart'' db' uid =
           (Response 200 (CartJson c its (toFixed2 rt (items_total rt its))), db')" by blast
      with fu l up True assms(4) int' c'(3) lines other show ?thesis
        by (simp add: adjust_item_def Let_def)
    next
      case False
      obtain db' where db': "db' = db\<lparr>cartItems :=
          filter (\<lambda>it. \<not> matches (ById (item_id l)) it) (cartItems db)\<rparr>" by simp
      have del: "cartItem_delete db (ById (item_id l)) = Inr db'"
        using assms(2) found db' by (simp add: cartItem_delete_def del: matches.simps)
      have int': "integrity db'" by (rule delete_integrity[OF del assms(1)])
      have c': "cart_of db' uid = Some c" "connected db'" "carts db' = carts db"
        using assms(2,3) db' by (simp_all add: cart_of_def)
      have "filter (\<lambda>it. line_key it = ?k) (filter (\<lambda>it. \<not> matches (ById (item_id l)) it) (cartItems db)) =
            filter (\<lambda>it. \<not> matches (ById (item_id l)) it) (filter (\<lambda>it. line_key it = ?k) (cartItems db))"
        by (simp add: conj_commute del: matches.simps)
      then have lines: "lines_for db' ?cid pid = []"
        using l unfolding lines_for_key db' by simp
      have other: "filter (\<lambda>it. line_key it \<noteq> ?k) (cartItems db') =
                   filter (\<lambda>it. line_key it \<noteq> ?k) (cartItems db)"
        unfolding db' using only lk
        by (simp del: matches.simps) (rule filter_cong, auto)
      from respond_updatedCart_ok[OF int' c'(2) c'(1)] obtain its where
        "respond_updatedCart rt ''Failed to add to cart'' db' uid =
           (Response 200 (CartJson c its (toFixed2 rt (items_total rt its))), db')" by blast
      with fu l del False assms(4) int' c'(3) lines other show ?thesis
        by (simp add: adjust_item_def Let_def)
    qed
  qed
qed

subsection \<open>Resolve\<close>

lemma no_lines_of_fresh_cart:
  assumes "integrity db"
  shows "lines_for db (nextId db) pid = []"
proof -
  have "\<And>it. it \<in> set (cartItems db) \<Longrightarrow> cartId it < nextId db"
    using assms by (auto simp: integrity_def list_all_iff)
  then have "\<And>it. it \<in> set (cartItems db) \<Longrightarrow> cartId it \<noteq> nextId db" by fastforce
  then show ?thesis by (simp add: lines_for_def filter_empty_conv)
qed

lemma find_snoc:
  "find P (xs @ [y]) = (case find P xs of None \<Rightarrow> (if P y then Some y else None) | Some x \<Rightarrow> Some x)"
  by (induction xs) auto

lemma handleAddToCart_resolve:
  assumes "integrity db" "connected db" "uid \<in> set (users db)"
    "cartItemSchema_parse rt b = Inr (pid, qty)" "pid \<in> set (map product_id (products db))"
  shows "\<exists>c db1. handleAddToCart rt db b uid = adjust_item rt db1 c pid qty uid \<and>
           integrity db1 \<and> connected db1 \<and> cart_of db1 uid = Some c \<and>
           cartItems db1 = cartItems db \<and> products db1 = products db \<and>
           (case cart_of db uid of
              Some c0 \<Rightarrow> db1 = db
            | None \<Rightarrow> db1 = db\<lparr>carts := carts db @ [c], nextId := Suc (nextId db)\<rparr> \<and>
                      c = \<lparr>cart_id = nextId db, userId = uid\<rparr>)"
proof -
  from find_product[OF assms(5)] obtain p where
    p: "product_findUnique db pid = Inr (Some p)" using assms(2) by (auto simp: product_findUnique_def)
  show ?thesis
  proof (cases "cart_of db uid")
    case (Some c)
    then have "cart_findUnique db uid = Inr (Some c)"
      using assms(2) by (simp add: cart_findUnique_def cart_of_def)
    with p assms(4) have "handleAddToCart rt db b uid = adjust_item rt db c pid qty uid"
      by (simp add: handleAddToCart_def)
    with Some assms(1,2) show ?thesis by auto
  next
    case None
    then have f: "cart_findUnique db uid = Inr None"
      using assms(2) by (simp add: cart_findUnique_def cart_of_def)
    let ?c = "\<lparr>cart_id = nextId db, userId = uid\<rparr>"
    let ?db1 = "db\<lparr>carts := carts db @ [?c], nextId := Suc (nextId db)\<rparr>"
    have cr: "cart_create db uid = Inr (?c, ?db1)"
      using None assms(2,3) by (simp add: cart_create_def cart_of_None Let_def)
    have "handleAddToCart rt db b uid = adjust_item rt ?db1 ?c pid qty uid"
      using p f cr assms(4) by (simp add: handleAddToCart_def)
    moreover have "integrity ?db1" by (rule create_integrity[OF cr assms(1)])
    moreover have "cart_of ?db1 uid = Some ?c"
      using None by (simp add: cart_of_def find_snoc)
    ultimately show ?thesis using None assms(2) by auto
  qed
qed

lemma handleAddToCart_negative_delta:
  assumes "integrity db" "connected db" "uid \<in> set (users db)"
    "cartItemSchema_parse rt b = Inr (pid, qty)" "pid \<in> set (map product_id (products db))"
    "qty < 0" "handleAddToCart rt db b uid = (r, db')"
  shows "\<exists>c. cart_of db' uid = Some c \<and> (cart_of db uid = None \<or> cart_of db uid = Some c) \<and>
           (case lines_for db (cart_id c) pid of
              [] \<Rightarrow> r = Response 400 (Error ''Cart item not found'') \<and> cartItems db' = cartItems db
            | l # _ \<Rightarrow> status r = 200 \<and>
                (if 0 < quantity l + qty
                 then lines_for db' (cart_id c) pid = [l\<lparr>quantity := quantity l + qty\<rparr>]
                 else lines_for db' (cart_id c) pid = [])) \<and>
           filter (\<lambda>it. line_key it \<noteq> (cart_id c, pid)) (cartItems db') =
           filter (\<lambda>it. line_key it \<noteq> (cart_id c, pid)) (cartItems db)"
proof -
  from handleAddToCart_resolve[OF assms(1-5)] obtain c db1 where
    h: "handleAddToCart rt db b uid = adjust_item rt db1 c pid qty uid"
    "integrity db1" "connected db1" "cart_of db1 uid = Some c"
    "cartItems db1 = cartItems db" "products db1 = products db"
    and cs: "case cart_of db uid of Some c0 \<Rightarrow> db1 = db
            | None \<Rightarrow> db1 = db\<lparr>carts := carts db @ [c], nextId := Suc (nextId db)\<rparr> \<and>
                      c = \<lparr>cart_id = nextId db, userId = uid\<rparr>"
    by blast
  have l: "lines_for db1 (cart_id c) pid = lines_for db (cart_id c) pid"
    using h(5) by (simp add: lines_for_def)
  from adjust_item_negative_delta[OF h(2,3,4) assms(6), of rt pid] h(1) assms(7)
  have a: "carts db' = carts db1"
    "filter (\<lambda>it. line_key it \<noteq> (cart_id c, pid)) (cartItems db') =
     filter (\<lambda>it. line_key it \<noteq> (cart_id c, pid)) (cartItems db1)"
    "case lines_for db (cart_id c) pid of
       [] \<Rightarrow> r = Response 400 (Error ''Cart item not found'') \<and> db' = db1
     | l # _ \<Rightarrow> status r = 200 \<and>
         (if 0 < quantity l + qty
          then lines_for db' (cart_id c) pid = [l\<lparr>quantity := quantity l + qty\<rparr>]
          else lines_for db' (cart_id c) pid = [])"
    unfolding l by auto
  have c': "cart_of db' uid = Some c" using h(4) a(1) by (simp add: cart_of_def)
  have "cart_of db uid = None \<or> cart_of db uid = Some c"
    using cs h(4) by (cases "cart_of db uid") auto
  with a c' h(5) show ?thesis by (auto split: list.splits)
qed

lemma lines_for_length: "unique_lines db \<Longrightarrow> length (lines_for db cid pid) \<le> 1"
  using lines_for_cases[of db cid pid] by auto

lemma include_product_Inr:
  "include_product ps its = Inr r \<Longrightarrow>
   map fst r = its \<and> list_all (\<lambda>(it, p). p \<in> set ps \<and> product_id p = productId it) r"
proof (induction its arbitrary: r)
  case Nil
  then show ?case by simp
next
  case (Cons it its)
  then show ?case
    by (auto simp: find_Some_iff split: option.splits sum.splits)
qed

subsection \<open>Checkout\<close>

lemma orders_handler_checkout:
  assumes "integrity db" "connected db" "req_method req = ''POST''" "session_user req = Some uid"
    "orders_handler rt db req = (r, db')"
  shows "case cart_of db uid of
           None \<Rightarrow> r = Response 400 (Error ''Cart is empty'') \<and> db' = db
         | Some c \<Rightarrow>
             if cart_items db (cart_id c) = []
             then r = Response 400 (Error ''Cart is empty'') \<and> db' = db
             else (\<exists>its. map fst its = cart_items db (cart_id c) \<and>
                     list_all (\<lambda>(it, p). p \<in> set (products db) \<and> product_id p = productId it) its \<and>
                     r = Response 200 (OrderJson True (toFixed2 rt (items_total rt its)))) \<and>
                  cartItems db' = filter (\<lambda>it. cartId it \<noteq> cart_id c) (cartItems db) \<and>
                  cart_items db' (cart_id c) = [] \<and>
                  carts db' = carts db \<and>
                  handleGetCart rt db' uid =
                    (Response 200 (CartJson c [] (toFixed2 rt (items_total rt []))), db')"
proof (cases "cart_of db uid")
  case None
  then have "cart_findUnique_include db uid = Inr None"
    using assms(2) by (simp add: cart_findUnique_include_def cart_of_def)
  with assms(3,4,5) None show ?thesis by (simp add: orders_handler_def)
next
  case (Some c)
  from findUnique_include_ok[OF assms(1,2) Some] obtain its where
    its: "cart_findUnique_include db uid = Inr (Some (c, its))"
      "map fst its = cart_items db (cart_id c)" by blast
  have inc: "include_product (products db) (cart_items db (cart_id c)) = Inr its"
    using its(1) assms(2) Some
    by (auto simp: cart_findUnique_include_def cart_of_def split: sum.splits)
  show ?thesis
  proof (cases "cart_items db (cart_id c) = []")
    case True
    with its have "its = []" by simp
    with its(1) assms(3,4,5) Some True show ?thesis by (simp add: orders_handler_def)
  next
    case False
    with its(2) have ne: "its \<noteq> []" by auto
    let ?db' = "db\<lparr>cartItems := filter (\<lambda>it. cartId it \<noteq> cart_id c) (cartItems db)\<rparr>"
    have dm: "cartItem_deleteMany db (cart_id c) = Inr ?db'"
      using assms(2) by (simp add: cartItem_deleteMany_def)
    have res: "r = Response 200 (OrderJson True (toFixed2 rt (items_total rt its)))" "db' = ?db'"
      using its(1) ne dm assms(3,4,5) by (auto simp: orders_handler_def Let_def)
    have int': "integrity ?db'" by (rule deleteMany_integrity[OF dm assms(1)])
    have c': "cart_of ?db' uid = Some c" "connected ?db'"
      using Some assms(2) by (simp_all add: cart_of_def)
    have empty: "cart_items ?db' (cart_id c) = []"
      by (simp add: cart_items_def filter_empty_conv)
    from findUnique_include_ok[OF int' c'(2) c'(1)] obtain its' where
      "cart_findUnique_include ?db' uid = Inr (Some (c, its'))" "map fst its' = cart_items ?db' (cart_id c)"
      by blast
    with empty have "cart_findUnique_include ?db' uid = Inr (Some (c, []))" by simp
    then have get: "handleGetCart rt ?db' uid =
        (Response 200 (CartJson c [] (toFixed2 rt (items_total rt []))), ?db')"
      by (simp add: handleGetCart_def)
    from include_product_Inr[OF inc] its(2) res get empty Some False show ?thesis
      by auto
  qed
qed

subsection \<open>Failed requests\<close>

lemma respond_updatedCart_status:
  "status (fst (respond_updatedCart rt f db uid)) = 200 \<or>
   fst (respond_updatedCart rt f db uid) = Response 500 (Error f)"
  by (simp add: respond_updatedCart_def split: sum.splits option.splits prod.splits)

lemma respond_updatedCart_not_400:
  "respond_updatedCart rt ''Failed to add to cart'' db uid = (r, db') \<Longrightarrow>
   r \<noteq> Response 400 (Error ''Cart item not found'') \<and> r \<noteq> Response 404 (Error ''Product not found'')"
  using respond_updatedCart_status[of rt "''Failed to add to cart''" db uid] by auto

lemma adjust_item_failure:
  assumes "adjust_item rt db c pid qty uid = (r, db')"
  shows "r \<noteq> Response 404 (Error ''Product not found'') \<and>
         (r = Response 400 (Error ''Cart item not found'') \<longrightarrow> db' = db)"
  using assms
  by (auto simp: adjust_item_def Let_def split: if_splits sum.splits option.splits
      dest: respond_updatedCart_not_400)

lemma handleAddToCart_failure:
  assumes "handleAddToCart rt db b uid = (r, db')"
  shows "(r = Response 404 (Error ''Product not found'') \<longrightarrow> db' = db) \<and>
         (r = Response 400 (Error ''Cart item not found'') \<longrightarrow>
            (case cart_of db uid of
               Some c \<Rightarrow> db' = db
             | None \<Rightarrow> db' = db\<lparr>carts := carts db @ [\<lparr>cart_id = nextId db, userId = uid\<rparr>],
                                  nextId := Suc (nextId db)\<rparr>))"
  using assms
  by (auto simp: handleAddToCart_def cart_findUnique_def cart_of_def
      split: if_splits sum.splits option.splits prod.splits
      dest: adjust_item_failure create_Inr)

subsection \<open>Validation\<close>

lemma cartItemSchema_parse_rejects:
  assumes "\<not> is_integer_number (field b ''quantity'') \<or> \<not> is_cuid_string rt (field b ''productId'')"
  shows "\<exists>issues. issues \<noteq> [] \<and> cartItemSchema_parse rt b = Inl issues"
  using assms
  by (cases b)
     (auto simp: cartItemSchema_parse_def is_integer_number_def is_cuid_string_def
        productId_issues_def quantity_issues_def Let_def split: jsval.splits option.splits)

subsection \<open>Removing a line\<close>

lemma handleRemoveFromCart_line:
  assumes "integrity db" "connected db" "cart_of db uid = Some c"
    "field b ''productId'' = JStr pid" "pid \<noteq> []"
    "handleRemoveFromCart rt db b uid = (r, db')"
  shows "case lines_for db (cart_id c) pid of
           [] \<Rightarrow> r = Response 500 (Error ''Failed to remove from cart'') \<and> db' = db
         | l # _ \<Rightarrow> status r = 200 \<and> lines_for db' (cart_id c) pid = [] \<and>
             filter (\<lambda>it. line_key it \<noteq> (cart_id c, pid)) (cartItems db') =
             filter (\<lambda>it. line_key it \<noteq> (cart_id c, pid)) (cartItems db)"
proof -
  let ?w = "ByCartId_ProductId (cart_id c) pid"
  have b: "b \<noteq> JUndefined" "b \<noteq> JNull" using assms(4) by auto
  have cf: "cart_findUnique db uid = Inr (Some c)"
    using assms(2,3) by (simp add: cart_findUnique_def cart_of_def)
  have step: "handleRemoveFromCart rt db b uid =
      (case cartItem_delete db ?w of
         Inl e \<Rightarrow> (Response 500 (Error ''Failed to remove from cart''), db)
       | Inr db' \<Rightarrow> respond_updatedCart rt ''Failed to remove from cart'' db' uid)"
    using b cf assms(4,5) by (simp add: handleRemoveFromCart_def)
  show ?thesis
  proof (cases "lines_for db (cart_id c) pid")
    case Nil
    then have "cartItem_delete db ?w = Inl RecordNotFound"
      using assms(2) by (simp add: cartItem_delete_def lines_for_find)
    with step assms(6) Nil show ?thesis by simp
  next
    case (Cons l ls)
    let ?db' = "db\<lparr>cartItems := filter (\<lambda>it. \<not> matches ?w it) (cartItems db)\<rparr>"
    have del: "cartItem_delete db ?w = Inr ?db'"
      using assms(2) Cons by (simp add: cartItem_delete_def lines_for_find del: matches.simps)
    have int': "integrity ?db'" by (rule delete_integrity[OF del assms(1)])
    have c': "cart_of ?db' uid = Some c" "connected ?db'"
      using assms(2,3) by (simp_all add: cart_of_def)
    from respond_updatedCart_ok[OF int' c'(2) c'(1)] obtain its where
      "respond_updatedCart rt ''Failed to remove from cart'' ?db' uid =
         (Response 200 (CartJson c its (toFixed2 rt (items_total rt its))), ?db')" by blast
    with step del assms(6) have r: "status r = 200" "db' = ?db'" by auto
    have "lines_for ?db' (cart_id c) pid = []"
      by (simp add: lines_for_def filter_empty_conv)
    moreover have "filter (\<lambda>it. line_key it \<noteq> (cart_id c, pid)) (cartItems ?db') =
                   filter (\<lambda>it. line_key it \<noteq> (cart_id c, pid)) (cartItems db)"
      by (simp add: matches_key del: matches.simps)
    ultimately show ?thesis using r Cons by simp
  qed
qed

section \<open>Lemmas on JavaScript numbers\<close>

lemma pow2_of_nat: "0 \<le> n \<Longrightarrow> (of_int (2 ^ nat n) :: rat) = 2 powi n"
  by (simp add: power_int_def)

lemma ilog2_bounds:
  assumes "0 < x"
  shows "2 powi (ilog2 x) \<le> x" and "x < 2 powi (ilog2 x + 1)"
proof -
  obtain p q where pq: "quotient_of x = (p, q)" by (cases "quotient_of x")
  then have q: "0 < q" and x: "x = of_int p / of_int q"
    by (simp_all add: quotient_of_denom_pos quotient_of_div)
  from assms x q have p: "0 < p" by (simp add: zero_less_divide_iff)
  let ?a = "bitlen p" and ?b = "bitlen q"
  from bitlen_bounds[OF p] have pa: "2 ^ nat (?a - 1) \<le> p" "p < 2 ^ nat ?a" by simp_all
  from bitlen_bounds[OF q] have qb: "2 ^ nat (?b - 1) \<le> q" "q < 2 ^ nat ?b" by simp_all
  have a1: "1 \<le> ?a" using p by (simp add: bitlen_alt_def)
  have b1: "1 \<le> ?b" using q by (simp add: bitlen_alt_def)
  have pa': "2 powi (?a - 1) \<le> (of_int p :: rat)" "(of_int p :: rat) < 2 powi ?a"
    using pa a1 pow2_of_nat[of "?a - 1"] pow2_of_nat[of ?a]
    by (metis diff_ge_0_iff_ge of_int_le_iff, metis a1 of_int_less_iff order_trans zero_le_one)
  have qb': "2 powi (?b - 1) \<le> (of_int q :: rat)" "(of_int q :: rat) < 2 powi ?b"
    using qb b1 pow2_of_nat[of "?b - 1"] pow2_of_nat[of ?b]
    by (metis diff_ge_0_iff_ge of_int_le_iff, metis b1 of_int_less_iff order_trans zero_le_one)
  have qpos: "(0::rat) < of_int q" using q by simp
  have low: "2 powi (?a - ?b - 1) < x"
  proof -
    have e: "?a - ?b - 1 = (?a - 1) - ?b" by simp
    have "2 powi (?a - ?b - 1) = (2 powi (?a - 1) :: rat) / 2 powi ?b"
      unfolding e by (rule power_int_diff) simp
    also have "\<dots> \<le> of_int p / 2 powi ?b"
      using pa'(1) by (simp add: divide_right_mono)
    also have "\<dots> < of_int p / of_int q"
      using qb'(2) qpos p by (simp add: frac_less2)
    finally show ?thesis using x by simp
  qed
  have up: "x < 2 powi (?a - ?b + 1)"
  proof -
    have "x = of_int p / of_int q" by (rule x)
    also have "\<dots> < 2 powi ?a / of_int q"
      using pa'(2) qpos by (simp add: divide_strict_right_mono)
    also have "\<dots> \<le> 2 powi ?a / 2 powi (?b - 1)"
      using qb'(1) by (simp add: frac_le)
    also have "\<dots> = 2 powi (?a - (?b - 1))"
      by (rule power_int_diff[symmetric]) simp
    also have "?a - (?b - 1) = ?a - ?b + 1" by simp
    finally show ?thesis .
  qed
  show "2 powi (ilog2 x) \<le> x"
    using low by (auto simp: ilog2_def pq Let_def algebra_simps)
  show "x < 2 powi (ilog2 x + 1)"
    using up by (auto simp: ilog2_def pq Let_def algebra_simps not_le)
qed

lemma pow2_less_exp: "(2::rat) powi a < 2 powi b \<Longrightarrow> a < b"
proof (rule ccontr)
  assume l: "(2::rat) powi a < 2 powi b" and "\<not> a < b"
  then have "b \<le> a" by simp
  then have "(2::rat) powi b \<le> 2 powi a" by (rule power_int_increasing) simp
  with l show False by simp
qed

lemma round_half_even_nonneg: "0 \<le> y \<Longrightarrow> 0 \<le> round_half_even y"
  by (auto simp: round_half_even_def Let_def)

lemma round_half_even_of_int [simp]: "round_half_even (of_int n) = n"
  by (simp add: round_half_even_def Let_def)

lemma round_half_even_le: "y \<le> of_int k \<Longrightarrow> round_half_even y \<le> k"
proof -
  assume a: "y \<le> of_int k"
  show ?thesis
  proof (cases "y = of_int k")
    case True
    then show ?thesis by simp
  next
    case False
    with a have "y < of_int k" by simp
    then have "\<lfloor>y\<rfloor> < k" by (simp add: floor_less_iff)
    then show ?thesis by (auto simp: round_half_even_def Let_def)
  qed
qed

lemma round_half_even_ge: "of_int k \<le> y \<Longrightarrow> k \<le> round_half_even y"
proof -
  assume "of_int k \<le> y"
  then have "k \<le> \<lfloor>y\<rfloor>" by (simp add: le_floor_iff)
  then show ?thesis by (auto simp: round_half_even_def Let_def)
qed

lemma round_positive_overflow:
  assumes "0 < x"
  shows "round_positive x =
     (let e = max (ilog2 x - 52) (- 1074);
          r = of_int (round_half_even (x / 2 powi e)) * 2 powi e
      in if 2 powi 1024 \<le> r then PosInfinity else Finite r)"
proof -
  let ?e = "max (ilog2 x - 52) (- 1074)"
  let ?y = "x / 2 powi ?e"
  let ?m = "round_half_even ?y"
  let ?r = "(of_int ?m :: rat) * 2 powi ?e"
  have p: "(0::rat) < 2 powi ?e" by simp
  have up: "?y < 2 powi 53"
  proof -
    have "x < 2 powi (ilog2 x + 1)" by (rule ilog2_bounds(2)[OF assms])
    also have "(2::rat) powi (ilog2 x + 1) \<le> 2 powi (?e + 53)"
      by (rule power_int_increasing) simp_all
    also have "(2::rat) powi (?e + 53) = 2 powi ?e * 2 powi 53"
      by (rule power_int_add) simp
    finally show ?thesis using p by (simp add: divide_less_eq mult.commute del: power_int_numeral)
  qed
  then have "?y \<le> of_int (2 ^ 53)" by simp
  then have m_le: "?m \<le> 2 ^ 53" by (rule round_half_even_le)
  have m53: "(of_int ?m :: rat) \<le> 2 ^ 53"
    using m_le by (metis of_int_le_iff of_int_numeral of_int_power)
  have overflow_iff: "(2 powi 1024 \<le> ?r) = (971 < ?e \<or> ?e = 971 \<and> ?m = 2 ^ 53)"
  proof (cases "?e = ilog2 x - 52")
    case True
    have i: "ilog2 x = 52 + ?e" using True by simp
    have "(of_int (2 ^ 52) :: rat) * 2 powi ?e = 2 powi 52 * 2 powi ?e" by simp
    also have "\<dots> = 2 powi (52 + ?e)" by (rule power_int_add[symmetric]) simp
    also have "\<dots> \<le> x" using ilog2_bounds(1)[OF assms] unfolding i[symmetric] .
    finally have "(of_int (2 ^ 52) :: rat) \<le> ?y"
      by (rule pos_le_divide_eq[THEN iffD2, OF p])
    then have m_ge: "2 ^ 52 \<le> ?m" by (rule round_half_even_ge)
    have m52: "(2 ^ 52 :: rat) \<le> of_int ?m"
      using m_ge by (metis of_int_le_iff of_int_numeral of_int_power)
    consider "971 < ?e" | "?e = 971" | "?e < 971" by linarith
    then show ?thesis
    proof cases
      case 1
      then have "972 \<le> ?e" by simp
      then have e972: "(2::rat) powi 972 \<le> 2 powi ?e" by (rule power_int_increasing) simp
      have "(2::rat) powi 1024 = 2 ^ 52 * 2 powi 972" by simp
      also have "\<dots> \<le> ?r" using m52 e972 by (intro mult_mono) simp_all
      finally have A: "2 powi 1024 \<le> ?r" .
      show ?thesis using A 1 by blast
    next
      case 2
      have "(2 powi 1024 \<le> ?r) = ((2 ^ 53 :: rat) * 2 powi 971 \<le> of_int ?m * 2 powi 971)"
        unfolding 2 by simp
      also have "\<dots> = ((2 ^ 53 :: rat) \<le> of_int ?m)"
        by (subst mult_le_cancel_right) simp
      also have "\<dots> = (2 ^ 53 \<le> ?m)"
        by (metis of_int_le_iff of_int_numeral of_int_power)
      also have "\<dots> = (?m = 2 ^ 53)" using m_le by auto
      finally have A: "(2 powi 1024 \<le> ?r) = (?m = 2 ^ 53)" .
      show ?thesis using A 2 by auto
    next
      case 3
      then have "?e \<le> 970" by simp
      then have e970: "(2::rat) powi ?e \<le> 2 powi 970" by (rule power_int_increasing) simp
      have "?r \<le> 2 ^ 53 * 2 powi 970" using m53 e970 by (intro mult_mono) simp_all
      also have "(2 ^ 53 :: rat) * 2 powi 970 < 2 powi 1024" by simp
      finally have A: "\<not> 2 powi 1024 \<le> ?r" by simp
      show ?thesis using A 3 by auto
    qed
  next
    case False
    then have e: "?e = - 1074" by simp
    have "?r \<le> 2 ^ 53 * 2 powi ?e" using m53 by (intro mult_right_mono) simp_all
    also have "(2 ^ 53 :: rat) * 2 powi ?e < 2 powi 1024"
      unfolding e by (simp add: power_int_minus_divide)
    finally have A: "\<not> 2 powi 1024 \<le> ?r" by simp
    show ?thesis using A e by auto
  qed
  show ?thesis unfolding round_positive_def Let_def overflow_iff by simp
qed

lemma round_positive_not_negative: "0 < x \<Longrightarrow> not_negative (round_positive x)"
proof -
  assume x: "0 < x"
  let ?e = "max (ilog2 x - 52) (- 1074)"
  have "0 \<le> x / 2 powi ?e" using x by simp
  then have "0 \<le> round_half_even (x / 2 powi ?e)" by (rule round_half_even_nonneg)
  then have "(0::rat) \<le> of_int (round_half_even (x / 2 powi ?e)) * 2 powi ?e" by simp
  then show ?thesis by (simp add: round_positive_def Let_def not_negative_def)
qed

lemma round_double_not_negative: "0 \<le> x \<Longrightarrow> not_negative (round_double x)"
  using round_positive_not_negative[of x]
  by (auto simp: round_double_def not_negative_def)

lemma divide_pow2: "(x::rat) / 2 powi e = x * 2 powi (- e)"
  by (simp add: power_int_minus_divide)

lemma round_double_of_int:
  assumes "0 \<le> q" "q < 2 ^ 53"
  shows "round_double (of_int q) = Finite (of_int q)"
proof (cases "q = 0")
  case True
  then show ?thesis by (simp add: round_double_def)
next
  case False
  with assms have q: "0 < q" by simp
  let ?x = "of_int q :: rat"
  have x: "0 < ?x" using q by simp
  have "2 powi (ilog2 ?x) \<le> ?x" using ilog2_bounds(1)[OF x] .
  also have "?x < of_int (2 ^ 53)" using assms(2) by (simp only: of_int_less_iff)
  also have "(of_int (2 ^ 53) :: rat) = 2 powi 53" by simp
  finally have hi: "ilog2 ?x < 53" by (rule pow2_less_exp)
  have "(2::rat) powi 0 \<le> ?x" using q by simp
  also have "?x < 2 powi (ilog2 ?x + 1)" using ilog2_bounds(2)[OF x] .
  finally have lo: "0 \<le> ilog2 ?x" using pow2_less_exp[of 0 "ilog2 ?x + 1"] by simp
  let ?e = "ilog2 ?x - 52"
  have e: "max ?e (- 1074) = ?e" "?e \<le> 0" using lo hi by simp_all
  have "?x / 2 powi ?e = ?x * 2 powi (- ?e)"
    by (rule divide_pow2)
  also have "\<dots> = of_int (q * 2 ^ nat (- ?e))"
    using e(2) by (simp add: power_int_def)
  finally have y: "?x / 2 powi ?e = of_int (q * 2 ^ nat (- ?e))" .
  have m: "round_half_even (?x / 2 powi ?e) = q * 2 ^ nat (- ?e)"
    unfolding y by (rule round_half_even_of_int)
  have "(of_int (round_half_even (?x / 2 powi ?e)) :: rat) * 2 powi ?e = (?x / 2 powi ?e) * 2 powi ?e"
    unfolding y by (simp only: round_half_even_of_int)
  also have "\<dots> = ?x" by simp
  finally have r: "(of_int (round_half_even (?x / 2 powi ?e)) :: rat) * 2 powi ?e = ?x" .
  have "round_positive ?x = Finite (of_int (round_half_even (?x / 2 powi ?e)) * 2 powi ?e)"
    unfolding round_positive_def Let_def e(1) using e(2) by simp
  with r x show ?thesis by (simp add: round_double_def)
qed

lemma items_total_js: "items_total js_runtime its = foldl add_line (Finite 0) its"
  by (simp add: items_total_def js_runtime_def js_of_int_def round_double_def)

lemma js_of_int_quantity:
  assumes "0 \<le> q" "int32 q"
  shows "js_of_int q = Finite (of_int q)"
proof -
  have "q < 2 ^ 53" using assms(2) by (simp add: int32_def)
  with assms(1) show ?thesis unfolding js_of_int_def by (rule round_double_of_int)
qed

lemma js_add_not_negative:
  "not_negative a \<Longrightarrow> not_negative b \<Longrightarrow> not_negative (js_add a b)"
  by (cases a; cases b) (simp_all add: not_negative_def[of "Finite _"] not_negative_def[of PosInfinity]
      not_negative_def[of NegInfinity] not_negative_def[of NaN] round_double_not_negative)

lemma add_line_not_negative:
  assumes "nonneg_line l" "not_negative acc"
  shows "not_negative (add_line acc l)"
proof -
  from assms(1) obtain x where x: "price (snd l) = Finite x" "0 \<le> x"
    and q: "0 \<le> quantity (fst l)" "int32 (quantity (fst l))"
    by (auto simp: nonneg_line_def split: number.splits)
  have "js_mul (price (snd l)) (js_of_int (quantity (fst l))) = round_double (x * of_int (quantity (fst l)))"
    using x(1) js_of_int_quantity[OF q] by simp
  moreover have "not_negative (round_double (x * of_int (quantity (fst l))))"
    using x(2) q(1) by (intro round_double_not_negative) simp
  ultimately show ?thesis using assms(2) by (simp add: js_add_not_negative)
qed

lemma foldl_not_negative:
  "list_all nonneg_line its \<Longrightarrow> not_negative acc \<Longrightarrow> not_negative (foldl add_line acc its)"
proof (induction its arbitrary: acc)
  case Nil
  then show ?case by simp
next
  case (Cons l ls)
  from Cons.prems have "not_negative (add_line acc l)" by (simp add: add_line_not_negative)
  with Cons show ?case by simp
qed

lemma js_toFixed2_not_negative: "not_negative n \<Longrightarrow> not_negative (js_toFixed2 n)"
proof (cases n)
  case (Finite x)
  assume "not_negative n"
  with Finite have x: "0 \<le> x" by (simp add: not_negative_def)
  then have "0 \<le> sgn x * of_int \<lfloor>\<bar>x\<bar> * 100 + 1 / 2\<rfloor> / 100"
    by (simp add: sgn_if)
  then have "not_negative (round_double (sgn x * of_int \<lfloor>\<bar>x\<bar> * 100 + 1 / 2\<rfloor> / 100))"
    by (rule round_double_not_negative)
  with Finite x show ?thesis by (simp add: js_toFixed2_def not_negative_def[of "Finite _"])
qed (simp_all add: js_toFixed2_def)

lemma exact_sum_Cons:
  "exact_sum (l # ls) = (case price (snd l) of Finite x \<Rightarrow> x | _ \<Rightarrow> 0) * of_int (quantity (fst l)) + exact_sum ls"
  by (simp add: exact_sum_def split: prod.splits)

lemma foldl_exact:
  "list_all nonneg_line its \<Longrightarrow> exact_from acc its \<Longrightarrow>
   foldl add_line (Finite acc) its = Finite (acc + exact_sum its)"
proof (induction its arbitrary: acc)
  case Nil
  then show ?case by (simp add: exact_sum_def)
next
  case (Cons l ls)
  from Cons.prems(1) obtain x where x: "price (snd l) = Finite x"
    and q: "0 \<le> quantity (fst l)" "int32 (quantity (fst l))"
    by (auto simp: nonneg_line_def split: number.splits)
  let ?t = "x * of_int (quantity (fst l))"
  from Cons.prems(2) x have e: "round_double ?t = Finite ?t"
    "round_double (acc + ?t) = Finite (acc + ?t)" "exact_from (acc + ?t) ls"
    by (simp_all add: Let_def)
  have "add_line (Finite acc) l = Finite (acc + ?t)"
    using x js_of_int_quantity[OF q] e(1,2) by simp
  moreover from Cons.prems(1) have "list_all nonneg_line ls" by simp
  ultimately show ?case
    using Cons.IH[OF _ e(3)] x by (simp add: exact_sum_Cons add.assoc)
qed

lemma exact_sum_nonneg: "list_all nonneg_line its \<Longrightarrow> 0 \<le> exact_sum its"
  by (induction its) (auto simp: exact_sum_Cons exact_sum_def nonneg_line_def split: number.splits)

lemma floor_half: "\<lfloor>1 / 2 :: rat\<rfloor> = 0"
  by (simp add: floor_eq_iff)

lemma lines_F_facts: "list_all nonneg_line lines_F" "exact_from 0 lines_F" "exact_sum lines_F < 10 ^ 21"
  by code_simp+

section \<open>Evaluation on the example data\<close>

lemmas example_defs =
  example_runtime_def product_P1_def product_P2_def cart_u1_def store_no_cart_def store_A_def
  store_B_def store_C_def store_max_def store_F_def delta_body_def remove_body_def post_as_def

lemmas prisma_defs =
  product_findUnique_def cart_findUnique_def cart_create_def cartItem_findUnique_def
  cartItem_upsert_def cartItem_update_def cartItem_delete_def cartItem_deleteMany_def
  cart_findUnique_include_def cart_items_def

lemmas handler_defs =
  cartItemSchema_parse_def productId_issues_def quantity_issues_def items_total_def
  respond_updatedCart_def adjust_item_def handleAddToCart_def handleGetCart_def
  handleRemoveFromCart_def handler_def orders_handler_def Let_def

lemma integrity_store_A: "integrity store_A"
  by (simp add: integrity_def unique_lines_def line_key_def example_defs)

lemma integrity_store_F: "integrity store_F"
  by (simp add: integrity_def unique_lines_def line_key_def example_defs)

lemma store_A_facts:
  "connected store_A" "''u1'' \<in> set (users store_A)"
  "''cproduct0001'' \<in> set (map product_id (products store_A))"
  "cart_of store_A ''u1'' = Some cart_u1"
  "lines_for store_A (cart_id cart_u1) ''cproduct0001'' =
     [\<lparr>item_id = 1, quantity = 2, productId = ''cproduct0001'', cartId = 0\<rparr>]"
  by (simp_all add: example_defs cart_of_def lines_for_def)

lemma parse_plus_1:
  "cartItemSchema_parse example_runtime (delta_body ''cproduct0001'' 1) = Inr (''cproduct0001'', 1)"
  by (simp add: cartItemSchema_parse_def productId_issues_def quantity_issues_def example_defs)

lemma parse_minus_5:
  "cartItemSchema_parse example_runtime (delta_body ''cproduct0001'' (- 5)) = Inr (''cproduct0001'', - 5)"
  by (simp add: cartItemSchema_parse_def productId_issues_def quantity_issues_def example_defs)

lemma scenario_B:
  "handleAddToCart example_runtime store_A (delta_body ''cproduct0001'' 1) ''u1'' =
     (Response 200 (CartJson cart_u1
        [(\<lparr>item_id = 1, quantity = 3, productId = ''cproduct0001'', cartId = 0\<rparr>, product_P1)] 30),
      store_B)"
  by (simp add: handler_defs prisma_defs example_defs int32_def)

lemma scenario_C:
  "handleAddToCart example_runtime store_A (delta_body ''cproduct0001'' (- 5)) ''u1'' =
     (Response 200 (CartJson cart_u1 [] 0), store_C)"
  by (simp add: handler_defs prisma_defs example_defs)

lemma decrement_without_cart:
  "handleAddToCart example_runtime store_no_cart (delta_body ''cproduct0001'' (- 2)) ''u1'' =
     (Response 400 (Error ''Cart item not found''),
      store_no_cart\<lparr>carts := carts store_no_cart @ [\<lparr>cart_id = nextId store_no_cart, userId = ''u1''\<rparr>],
                      nextId := Suc (nextId store_no_cart)\<rparr>)"
  by (simp add: handler_defs prisma_defs example_defs)

lemma remove_present_line:
  "handleRemoveFromCart example_runtime store_A (remove_body ''cproduct0001'') ''u1'' =
     (Response 200 (CartJson cart_u1 [] 0), store_C)"
  by (simp add: handler_defs prisma_defs example_defs)

lemma get_without_cart:
  "handleGetCart example_runtime store_no_cart ''u1'' =
     (Response 404 (Error ''Cart not found''), store_no_cart)"
  by (simp add: handler_defs prisma_defs example_defs)

lemma scenario_F:
  "orders_handler example_runtime store_F (post_as ''u1'' JUndefined) =
     (Response 200 (OrderJson True 25), store_F\<lparr>cartItems := []\<rparr>)"
  by (simp add: handler_defs prisma_defs example_defs)

section \<open>The claims\<close>

text \<open>
  C1, as stated, fails: the quantity is a 32-bit column.  A delta above 2147483647, and a
  delta that takes the quantity of the line above 2147483647, make the upsert throw; the
  answer is 500 ``Failed to add to cart'' and the store is as it was.
\<close>

theorem positive_delta_out_of_range_counterexample:
  "handleAddToCart example_runtime store_A (delta_body ''cproduct0001'' 2147483648) ''u1'' =
     (Response 500 (Error ''Failed to add to cart''), store_A) \<and>
   map quantity (lines_for store_A 0 ''cproduct0001'') = [2] \<and>
   handleAddToCart example_runtime store_max (delta_body ''cproduct0001'' 1) ''u1'' =
     (Response 500 (Error ''Failed to add to cart''), store_max) \<and>
   map quantity (lines_for store_max 0 ''cproduct0001'') = [2147483647]"
  by (simp add: handler_defs prisma_defs example_defs int32_def lines_for_def)

text \<open>
  C1, amended.  A positive delta in the range of the column, on a valid request for an
  existing product, where the quantity that the product has in the user's cart plus the
  delta is in the range too, leaves exactly one line for the pair of the user's cart and the
  product: its quantity is the delta when the pair had no line, and the quantity of the
  existing line plus the delta when it had one.  The answer is 200, and the lines of every
  other pair are as before.
\<close>

theorem positive_delta_creates_or_increments:
  assumes "integrity db" "connected db" "uid \<in> set (users db)"
    "cartItemSchema_parse rt b = Inr (pid, qty)" "pid \<in> set (map product_id (products db))"
    "0 < qty" "int32 qty" "int32 (line_quantity db uid pid + qty)"
    "handleAddToCart rt db b uid = (r, db')"
  shows "\<exists>c. cart_of db' uid = Some c \<and> (cart_of db uid = None \<or> cart_of db uid = Some c) \<and>
           status r = 200 \<and>
           map quantity (lines_for db' (cart_id c) pid) =
             (case lines_for db (cart_id c) pid of [] \<Rightarrow> [qty] | l # _ \<Rightarrow> [quantity l + qty]) \<and>
           filter (\<lambda>it. line_key it \<noteq> (cart_id c, pid)) (cartItems db') =
           filter (\<lambda>it. line_key it \<noteq> (cart_id c, pid)) (cartItems db)"
proof -
  from handleAddToCart_resolve[OF assms(1-5)] obtain c db1 where
    h: "handleAddToCart rt db b uid = adjust_item rt db1 c pid qty uid"
    "integrity db1" "connected db1" "cart_of db1 uid = Some c"
    "cartItems db1 = cartItems db" "products db1 = products db"
    and cs: "case cart_of db uid of Some c0 \<Rightarrow> db1 = db
            | None \<Rightarrow> db1 = db\<lparr>carts := carts db @ [c], nextId := Suc (nextId db)\<rparr> \<and>
                      c = \<lparr>cart_id = nextId db, userId = uid\<rparr>"
    by blast
  have p1: "pid \<in> set (map product_id (products db1))" using assms(5) h(6) by simp
  have l: "lines_for db1 (cart_id c) pid = lines_for db (cart_id c) pid"
    using h(5) by (simp add: lines_for_def)
  have range: "case lines_for db1 (cart_id c) pid of [] \<Rightarrow> True | l # _ \<Rightarrow> int32 (quantity l + qty)"
  proof (cases "cart_of db uid")
    case None
    with cs have "cart_id c = nextId db" by simp
    then show ?thesis unfolding l using no_lines_of_fresh_cart[OF assms(1), of pid] by simp
  next
    case (Some c0)
    with cs h(4) have "c0 = c" by simp
    with Some assms(8) show ?thesis unfolding l
      by (simp add: line_quantity_def split: list.splits)
  qed
  from adjust_item_positive_delta[OF h(2,3,4) p1 assms(6,7) range, of rt] h(1) assms(9)
  have a: "status r = 200" "carts db' = carts db1"
    "map quantity (lines_for db' (cart_id c) pid) =
       (case lines_for db1 (cart_id c) pid of [] \<Rightarrow> [qty] | l # _ \<Rightarrow> [quantity l + qty])"
    "filter (\<lambda>it. line_key it \<noteq> (cart_id c, pid)) (cartItems db') =
     filter (\<lambda>it. line_key it \<noteq> (cart_id c, pid)) (cartItems db1)"
    by auto
  have c': "cart_of db' uid = Some c" using h(4) a(2) by (simp add: cart_of_def)
  have "cart_of db uid = None \<or> cart_of db uid = Some c"
    using cs h(4) by (cases "cart_of db uid") auto
  with a l c' h(5) show ?thesis by auto
qed

theorem positive_delta_creates_or_increments_witness:
  "integrity store_A \<and> connected store_A \<and> ''u1'' \<in> set (users store_A) \<and>
   cartItemSchema_parse example_runtime (delta_body ''cproduct0001'' 1) = Inr (''cproduct0001'', 1) \<and>
   ''cproduct0001'' \<in> set (map product_id (products store_A)) \<and> (0::int) < 1 \<and>
   int32 1 \<and> int32 (line_quantity store_A ''u1'' ''cproduct0001'' + 1) \<and>
   handleAddToCart example_runtime store_A (delta_body ''cproduct0001'' 1) ''u1'' =
     (Response 200 (CartJson cart_u1
        [(\<lparr>item_id = 1, quantity = 3, productId = ''cproduct0001'', cartId = 0\<rparr>, product_P1)] 30),
      store_B) \<and>
   (\<exists>c. cart_of store_B ''u1'' = Some c \<and>
        (cart_of store_A ''u1'' = None \<or> cart_of store_A ''u1'' = Some c) \<and>
        status (Response 200 (CartJson cart_u1
          [(\<lparr>item_id = 1, quantity = 3, productId = ''cproduct0001'', cartId = 0\<rparr>, product_P1)] 30)) = 200 \<and>
        map quantity (lines_for store_B (cart_id c) ''cproduct0001'') =
          (case lines_for store_A (cart_id c) ''cproduct0001'' of [] \<Rightarrow> [1] | l # _ \<Rightarrow> [quantity l + 1]) \<and>
        filter (\<lambda>it. line_key it \<noteq> (cart_id c, ''cproduct0001'')) (cartItems store_B) =
        filter (\<lambda>it. line_key it \<noteq> (cart_id c, ''cproduct0001'')) (cartItems store_A))"
proof -
  have h6: "(0::int) < 1" by simp
  have h7: "int32 1" by (simp add: int32_def)
  have h8: "int32 (line_quantity store_A ''u1'' ''cproduct0001'' + 1)"
    by (simp add: int32_def line_quantity_def store_A_facts)
  note c = positive_delta_creates_or_increments
    [OF integrity_store_A store_A_facts(1,2) parse_plus_1 store_A_facts(3) h6 h7 h8 scenario_B]
  show ?thesis
    by (intro conjI; (rule integrity_store_A store_A_facts(1,2,3) parse_plus_1 h6 h7 h8 scenario_B c))
qed

text \<open>
  C2.  A negative delta on a valid request for an existing product: when the pair of the
  user's cart and the product has no line, the answer is 400 ``Cart item not found'' and
  the cart items are as before; when it has the line \<open>l\<close>, the answer is 200 and the
  line is stored with the quantity of \<open>l\<close> plus the delta if that is positive, and is
  deleted otherwise.  The lines of every other pair are as before.
\<close>

theorem negative_delta_decrements_or_deletes:
  assumes "integrity db" "connected db" "uid \<in> set (users db)"
    "cartItemSchema_parse rt b = Inr (pid, qty)" "pid \<in> set (map product_id (products db))"
    "qty < 0" "handleAddToCart rt db b uid = (r, db')"
  shows "\<exists>c. cart_of db' uid = Some c \<and> (cart_of db uid = None \<or> cart_of db uid = Some c) \<and>
           (case lines_for db (cart_id c) pid of
              [] \<Rightarrow> r = Response 400 (Error ''Cart item not found'') \<and> cartItems db' = cartItems db
            | l # _ \<Rightarrow> status r = 200 \<and>
                (if 0 < quantity l + qty
                 then lines_for db' (cart_id c) pid = [l\<lparr>quantity := quantity l + qty\<rparr>]
                 else lines_for db' (cart_id c) pid = [])) \<and>
           filter (\<lambda>it. line_key it \<noteq> (cart_id c, pid)) (cartItems db') =
           filter (\<lambda>it. line_key it \<noteq> (cart_id c, pid)) (cartItems db)"
  using assms by (rule handleAddToCart_negative_delta)

theorem negative_delta_decrements_or_deletes_witness:
  "integrity store_A \<and> connected store_A \<and> ''u1'' \<in> set (users store_A) \<and>
   cartItemSchema_parse example_runtime (delta_body ''cproduct0001'' (- 5)) = Inr (''cproduct0001'', - 5) \<and>
   ''cproduct0001'' \<in> set (map product_id (products store_A)) \<and> (- 5 :: int) < 0 \<and>
   handleAddToCart example_runtime store_A (delta_body ''cproduct0001'' (- 5)) ''u1'' =
     (Response 200 (CartJson cart_u1 [] 0), store_C) \<and>
   (\<exists>c. cart_of store_C ''u1'' = Some c \<and>
        (cart_of store_A ''u1'' = None \<or> cart_of store_A ''u1'' = Some c) \<and>
        (case lines_for store_A (cart_id c) ''cproduct0001'' of
           [] \<Rightarrow> Response 200 (CartJson cart_u1 [] (0::real)) = Response 400 (Error ''Cart item not found'') \<and>
                 cartItems store_C = cartItems store_A
         | l # _ \<Rightarrow> status (Response 200 (CartJson cart_u1 [] (0::real))) = 200 \<and>
             (if 0 < quantity l + - 5
              then lines_for store_C (cart_id c) ''cproduct0001'' = [l\<lparr>quantity := quantity l + - 5\<rparr>]
              else lines_for store_C (cart_id c) ''cproduct0001'' = [])) \<and>
        filter (\<lambda>it. line_key it \<noteq> (cart_id c, ''cproduct0001'')) (cartItems store_C) =
        filter (\<lambda>it. line_key it \<noteq> (cart_id c, ''cproduct0001'')) (cartItems store_A))"
proof -
  have h6: "(- 5 :: int) < 0" by simp
  note c = negative_delta_decrements_or_deletes
    [OF integrity_store_A store_A_facts(1,2) parse_minus_5 store_A_facts(3) h6 scenario_C]
  show ?thesis
    by (intro conjI; (rule integrity_store_A store_A_facts(1,2,3) parse_minus_5 h6 scenario_C c))
qed

text \<open>
  C3.  Along every sequence of requests to the cart API and the orders API (and of the
  store becoming reachable or unreachable) that starts from a store without two lines for
  one pair of a cart and a product, every store on the way has at most one line for each
  pair.
\<close>

theorem unique_lines_invariant:
  assumes "unique_lines db"
  shows "unique_lines (run rt db (take n evs)) \<and>
         (\<forall>cid pid. length (lines_for (run rt db (take n evs)) cid pid) \<le> 1)"
proof -
  have "unique_lines (run rt db (take n evs))" using assms by (rule run_unique)
  then show ?thesis using lines_for_length by blast
qed

theorem unique_lines_invariant_witness:
  "unique_lines store_no_cart \<and>
   unique_lines (run example_runtime store_no_cart (take 3 example_events)) \<and>
   (\<forall>cid pid. length (lines_for (run example_runtime store_no_cart (take 3 example_events)) cid pid) \<le> 1)"
proof -
  have h: "unique_lines store_no_cart" by (simp add: unique_lines_def example_defs)
  from unique_lines_invariant[OF h, of example_runtime 3 example_events] h
  show ?thesis by (intro conjI) simp_all
qed

text \<open>
  C4.  Along every sequence of requests that starts from a store whose lines all have a
  quantity of at least 1, every line of every store on the way has a quantity of at least
  1.  And a delta that would take the quantity of a line to 0 or below deletes the line:
  no line for the pair is left.
\<close>

theorem quantities_positive_invariant:
  "(quantities_positive db \<longrightarrow>
      quantities_positive (run rt db (take n evs)) \<and>
      (\<forall>it \<in> set (cartItems (run rt db (take n evs))). 1 \<le> quantity it)) \<and>
   (integrity db \<and> connected db \<and> cart_of db uid = Some c \<and>
    cartItemSchema_parse rt b = Inr (pid, qty) \<and> pid \<in> set (map product_id (products db)) \<and>
    lines_for db (cart_id c) pid = [l] \<and> 1 \<le> quantity l \<and> quantity l + qty \<le> 0 \<longrightarrow>
      lines_for (snd (handleAddToCart rt db b uid)) (cart_id c) pid = [])"
proof (intro conjI impI)
  assume "quantities_positive db"
  then show "quantities_positive (run rt db (take n evs))" by (rule run_positive)
  then show "\<forall>it \<in> set (cartItems (run rt db (take n evs))). 1 \<le> quantity it"
    by (simp add: quantities_positive_def list_all_iff)
next
  assume a: "integrity db \<and> connected db \<and> cart_of db uid = Some c \<and>
    cartItemSchema_parse rt b = Inr (pid, qty) \<and> pid \<in> set (map product_id (products db)) \<and>
    lines_for db (cart_id c) pid = [l] \<and> 1 \<le> quantity l \<and> quantity l + qty \<le> 0"
  then have neg: "qty < 0" by simp
  have u: "uid \<in> set (users db)"
    using a cart_of_Some[of db uid c] by (auto simp: integrity_def list_all_iff)
  obtain r db' where e: "handleAddToCart rt db b uid = (r, db')" by (cases "handleAddToCart rt db b uid")
  from a have i: "integrity db" and cn: "connected db"
    and p: "cartItemSchema_parse rt b = Inr (pid, qty)"
    and pin: "pid \<in> set (map product_id (products db))" by simp_all
  from handleAddToCart_negative_delta[OF i cn u p pin neg e] a
  have "lines_for db' (cart_id c) pid = []" by auto
  with e show "lines_for (snd (handleAddToCart rt db b uid)) (cart_id c) pid = []" by simp
qed

theorem quantities_positive_invariant_witness:
  "quantities_positive store_A \<and>
   (integrity store_A \<and> connected store_A \<and> cart_of store_A ''u1'' = Some cart_u1 \<and>
    cartItemSchema_parse example_runtime (delta_body ''cproduct0001'' (- 5)) = Inr (''cproduct0001'', - 5) \<and>
    ''cproduct0001'' \<in> set (map product_id (products store_A)) \<and>
    lines_for store_A (cart_id cart_u1) ''cproduct0001'' =
      [\<lparr>item_id = 1, quantity = 2, productId = ''cproduct0001'', cartId = 0\<rparr>] \<and>
    (1::int) \<le> quantity \<lparr>item_id = 1, quantity = 2, productId = ''cproduct0001'', cartId = 0\<rparr> \<and>
    quantity \<lparr>item_id = 1, quantity = 2, productId = ''cproduct0001'', cartId = 0\<rparr> + (- 5) \<le> 0) \<and>
   quantities_positive (run example_runtime store_A (take 4 example_events)) \<and>
   lines_for (snd (handleAddToCart example_runtime store_A (delta_body ''cproduct0001'' (- 5)) ''u1''))
     (cart_id cart_u1) ''cproduct0001'' = []"
proof -
  have h1: "quantities_positive store_A" by (simp add: quantities_positive_def example_defs)
  have h2: "integrity store_A \<and> connected store_A \<and> cart_of store_A ''u1'' = Some cart_u1 \<and>
    cartItemSchema_parse example_runtime (delta_body ''cproduct0001'' (- 5)) = Inr (''cproduct0001'', - 5) \<and>
    ''cproduct0001'' \<in> set (map product_id (products store_A)) \<and>
    lines_for store_A (cart_id cart_u1) ''cproduct0001'' =
      [\<lparr>item_id = 1, quantity = 2, productId = ''cproduct0001'', cartId = 0\<rparr>] \<and>
    (1::int) \<le> quantity \<lparr>item_id = 1, quantity = 2, productId = ''cproduct0001'', cartId = 0\<rparr> \<and>
    quantity \<lparr>item_id = 1, quantity = 2, productId = ''cproduct0001'', cartId = 0\<rparr> + (- 5) \<le> 0"
    using integrity_store_A store_A_facts parse_minus_5 by simp
  note t = quantities_positive_invariant[of store_A example_runtime 4 example_events "''u1''" cart_u1
      "delta_body ''cproduct0001'' (- 5)" "''cproduct0001''" "- 5"
      "\<lparr>item_id = 1, quantity = 2, productId = ''cproduct0001'', cartId = 0\<rparr>"]
  from t h1 have c1: "quantities_positive (run example_runtime store_A (take 4 example_events))"
    by blast
  from t h2 have c2: "lines_for (snd (handleAddToCart example_runtime store_A
      (delta_body ''cproduct0001'' (- 5)) ''u1'')) (cart_id cart_u1) ''cproduct0001'' = []"
    by blast
  from h1 h2 c1 c2 show ?thesis by blast
qed

text \<open>
  C5.  Checkout (an authenticated POST to the orders API, on a reachable store that meets its
  constraints).  Without a cart row, or with a cart without lines, the answer is 400
  ``Cart is empty'' and the store is as before.  With at least one line the answer is 200
  with the total of the lines that the cart has at that moment, each joined with its
  product; afterwards the cart has no lines, the lines of other carts and the cart rows are
  as before, and reading the cart answers 200 with no lines.
\<close>

theorem checkout_clears_cart:
  assumes "integrity db" "connected db" "req_method req = ''POST''" "session_user req = Some uid"
    "orders_handler rt db req = (r, db')"
  shows "case cart_of db uid of
           None \<Rightarrow> r = Response 400 (Error ''Cart is empty'') \<and> db' = db
         | Some c \<Rightarrow>
             if cart_items db (cart_id c) = []
             then r = Response 400 (Error ''Cart is empty'') \<and> db' = db
             else (\<exists>its. map fst its = cart_items db (cart_id c) \<and>
                     list_all (\<lambda>(it, p). p \<in> set (products db) \<and> product_id p = productId it) its \<and>
                     r = Response 200 (OrderJson True (toFixed2 rt (items_total rt its)))) \<and>
                  cartItems db' = filter (\<lambda>it. cartId it \<noteq> cart_id c) (cartItems db) \<and>
                  cart_items db' (cart_id c) = [] \<and>
                  carts db' = carts db \<and>
                  handleGetCart rt db' uid =
                    (Response 200 (CartJson c [] (toFixed2 rt (items_total rt []))), db')"
  using assms by (rule orders_handler_checkout)

theorem checkout_clears_cart_witness:
  "integrity store_F \<and> connected store_F \<and> req_method (post_as ''u1'' JUndefined) = ''POST'' \<and>
   session_user (post_as ''u1'' JUndefined) = Some ''u1'' \<and>
   orders_handler example_runtime store_F (post_as ''u1'' JUndefined) =
     (Response 200 (OrderJson True 25), store_F\<lparr>cartItems := []\<rparr>) \<and>
   cart_of store_F ''u1'' = Some cart_u1 \<and> cart_items store_F (cart_id cart_u1) \<noteq> [] \<and>
   cart_items (store_F\<lparr>cartItems := []\<rparr>) (cart_id cart_u1) = [] \<and>
   carts (store_F\<lparr>cartItems := []\<rparr>) = carts store_F \<and>
   handleGetCart example_runtime (store_F\<lparr>cartItems := []\<rparr>) ''u1'' =
     (Response 200 (CartJson cart_u1 [] (toFixed2 example_runtime (items_total example_runtime []))),
      store_F\<lparr>cartItems := []\<rparr>)"
proof -
  have h2: "connected store_F" and h3: "req_method (post_as ''u1'' JUndefined) = ''POST''"
    and h4: "session_user (post_as ''u1'' JUndefined) = Some ''u1''"
    and c: "cart_of store_F ''u1'' = Some cart_u1"
    and ne: "cart_items store_F (cart_id cart_u1) \<noteq> []"
    by (simp_all add: example_defs cart_of_def cart_items_def)
  from checkout_clears_cart[OF integrity_store_F h2 h3 h4 scenario_F] c ne
  have "cart_items (store_F\<lparr>cartItems := []\<rparr>) (cart_id cart_u1) = [] \<and>
        carts (store_F\<lparr>cartItems := []\<rparr>) = carts store_F \<and>
        handleGetCart example_runtime (store_F\<lparr>cartItems := []\<rparr>) ''u1'' =
          (Response 200 (CartJson cart_u1 [] (toFixed2 example_runtime (items_total example_runtime []))),
           store_F\<lparr>cartItems := []\<rparr>)"
    by simp
  with integrity_store_F h2 h3 h4 scenario_F c ne show ?thesis by blast
qed




text \<open>
  C7.  Removing a product that has no line in the user's cart: the delete of the store
  throws, the handler's \<^verbatim>\<open>catch\<close> answers 500 ``Failed to remove from cart'', the answer
  of a storage failure, and not the 400 ``Cart item not found'' with which a decrement
  reports the same absence.  This is so for every store and product (lemma
  \<open>handleRemoveFromCart_line\<close>, which also shows that a line that is there is deleted with
  the answer 200); the theorem evaluates the handler on state A, whose cart has no line
  for the product P2.
\<close>

theorem remove_absent_line_answers_500:
  "lines_for store_A (cart_id cart_u1) ''cproduct0002'' = [] \<and>
   handleRemoveFromCart example_runtime store_A (remove_body ''cproduct0002'') ''u1'' =
     (Response 500 (Error ''Failed to remove from cart''), store_A)"
  by (simp add: lines_for_def handler_defs prisma_defs example_defs)

text \<open>
  C8, as stated, fails: for a user without a cart row, reading the cart answers 404
  ``Cart not found'' and creates no cart.
\<close>

theorem get_cart_not_found_counterexample:
  "cart_of store_no_cart ''u1'' = None \<and> connected store_no_cart \<and>
   fst (handleGetCart example_runtime store_no_cart ''u1'') = Response 404 (Error ''Cart not found'') \<and>
   carts (snd (handleGetCart example_runtime store_no_cart ''u1'')) = []"
  by (simp add: cart_of_def handler_defs prisma_defs example_defs)

text \<open>
  C8, amended.  Reading the cart never changes the store, so it creates no cart.  On an
  unreachable store the answer is 500 ``Failed to fetch cart''.  On a reachable store the
  answer is 404 ``Cart not found'' when the user has no cart row; when the user has one,
  the answer is 200 with its lines and their total, or 500.
\<close>

theorem get_cart_outcomes:
  assumes "handleGetCart rt db uid = (r, db')"
  shows "db' = db \<and>
         (if \<not> connected db then r = Response 500 (Error ''Failed to fetch cart'')
          else case cart_of db uid of
            None \<Rightarrow> r = Response 404 (Error ''Cart not found'')
          | Some c \<Rightarrow>
              r = Response 500 (Error ''Failed to fetch cart'') \<or>
              (\<exists>its. r = Response 200 (CartJson c its (toFixed2 rt (items_total rt its))) \<and>
                     map fst its = cart_items db (cart_id c)))"
  using assms
  by (auto simp: handleGetCart_def cart_findUnique_include_def cart_of_def
      split: if_splits sum.splits option.splits prod.splits dest: include_product_Inr)

theorem get_cart_outcomes_witness:
  "handleGetCart example_runtime store_no_cart ''u1'' =
     (Response 404 (Error ''Cart not found''), store_no_cart) \<and>
   store_no_cart = store_no_cart \<and>
   (if \<not> connected store_no_cart
    then Response 404 (Error ''Cart not found'') = (Response 500 (Error ''Failed to fetch cart'') :: real response)
    else case cart_of store_no_cart ''u1'' of
      None \<Rightarrow> Response 404 (Error ''Cart not found'') = (Response 404 (Error ''Cart not found'') :: real response)
    | Some c \<Rightarrow>
        Response 404 (Error ''Cart not found'') = (Response 500 (Error ''Failed to fetch cart'') :: real response) \<or>
        (\<exists>its. Response 404 (Error ''Cart not found'') =
                 Response 200 (CartJson c its (toFixed2 example_runtime (items_total example_runtime its))) \<and>
               map fst its = cart_items store_no_cart (cart_id c)))"
proof -
  note c = get_cart_outcomes[OF get_without_cart]
  show ?thesis
    by (intro conjI; (rule get_without_cart c[THEN conjunct1] c[THEN conjunct2]))
qed

text \<open>
  C9, as stated, fails: a decrement for a user without a cart row answers 400
  ``Cart item not found'' after the cart row has been created.
\<close>

theorem failed_delta_creates_cart_counterexample:
  "fst (handleAddToCart example_runtime store_no_cart (delta_body ''cproduct0001'' (- 2)) ''u1'') =
     Response 400 (Error ''Cart item not found'') \<and>
   carts store_no_cart = [] \<and>
   carts (snd (handleAddToCart example_runtime store_no_cart (delta_body ''cproduct0001'' (- 2)) ''u1'')) =
     [\<lparr>cart_id = 0, userId = ''u1''\<rparr>] \<and>
   snd (handleAddToCart example_runtime store_no_cart (delta_body ''cproduct0001'' (- 2)) ''u1'') \<noteq>
     store_no_cart"
  by (simp add: decrement_without_cart) (simp add: example_defs)

text \<open>
  C9, amended.  A request that answers 404 ``Product not found'' leaves the store as it
  was.  A request that answers 400 ``Cart item not found'' leaves the cart items, the
  products and the users as they were; the cart rows are as they were when the user had a
  cart row, and otherwise the one cart row created for the user has been added.
\<close>

theorem failed_delta_leaves_lines:
  assumes "handleAddToCart rt db b uid = (r, db')"
    "r = Response 404 (Error ''Product not found'') \<or> r = Response 400 (Error ''Cart item not found'')"
  shows "cartItems db' = cartItems db \<and> products db' = products db \<and> users db' = users db \<and>
         connected db' = connected db \<and>
         db' = (if r = Response 400 (Error ''Cart item not found'') \<and> cart_of db uid = None
                then db\<lparr>carts := carts db @ [\<lparr>cart_id = nextId db, userId = uid\<rparr>],
                        nextId := Suc (nextId db)\<rparr>
                else db)"
  using handleAddToCart_failure[OF assms(1)] assms(2) by (auto split: option.splits)

theorem failed_delta_leaves_lines_witness:
  "handleAddToCart example_runtime store_no_cart (delta_body ''cproduct0001'' (- 2)) ''u1'' =
     (Response 400 (Error ''Cart item not found''),
      store_no_cart\<lparr>carts := carts store_no_cart @ [\<lparr>cart_id = nextId store_no_cart, userId = ''u1''\<rparr>],
                      nextId := Suc (nextId store_no_cart)\<rparr>) \<and>
   cartItems (store_no_cart\<lparr>carts := carts store_no_cart @ [\<lparr>cart_id = nextId store_no_cart, userId = ''u1''\<rparr>],
                      nextId := Suc (nextId store_no_cart)\<rparr>) = cartItems store_no_cart \<and>
   cart_of store_no_cart ''u1'' = None"
proof -
  have h: "(Response 400 (Error ''Cart item not found'') :: real response) = Response 404 (Error ''Product not found'') \<or>
           (Response 400 (Error ''Cart item not found'') :: real response) = Response 400 (Error ''Cart item not found'')"
    by simp
  have n: "cart_of store_no_cart ''u1'' = None" by (simp add: cart_of_def example_defs)
  from failed_delta_leaves_lines[OF decrement_without_cart h] decrement_without_cart n
  show ?thesis by blast
qed

text \<open>
  C10.  A POST whose body has no integer number as quantity, or no cuid string as
  productId, is answered 400 with the issues of the validation, and the store is as it
  was; this holds on an unreachable store too, so the store has not been asked.
\<close>

theorem invalid_body_rejected:
  assumes "\<not> is_integer_number (field b ''quantity'') \<or> \<not> is_cuid_string rt (field b ''productId'')"
  shows "\<exists>issues. issues \<noteq> [] \<and>
           handleAddToCart rt db b uid = (Response 400 (ValidationFailed issues), db)"
proof -
  from cartItemSchema_parse_rejects[OF assms] obtain issues where
    "issues \<noteq> []" "cartItemSchema_parse rt b = Inl issues" by blast
  then show ?thesis by (auto simp: handleAddToCart_def)
qed

theorem invalid_body_rejected_witness:
  "\<not> is_integer_number (field (delta_body ''cproduct0001'' (3 / 2)) ''quantity'') \<and>
   (\<exists>issues. issues \<noteq> [] \<and>
      handleAddToCart example_runtime (store_A\<lparr>connected := False\<rparr>)
        (delta_body ''cproduct0001'' (3 / 2)) ''u1'' =
      (Response 400 (ValidationFailed issues), store_A\<lparr>connected := False\<rparr>))"
proof -
  have n: "\<not> is_integer_number (field (delta_body ''cproduct0001'' (3 / 2)) ''quantity'')"
    by (simp add: is_integer_number_def delta_body_def)
  then have h: "\<not> is_integer_number (field (delta_body ''cproduct0001'' (3 / 2)) ''quantity'') \<or>
    \<not> is_cuid_string example_runtime (field (delta_body ''cproduct0001'' (3 / 2)) ''productId'')"
    by (rule disjI1)
  from invalid_body_rejected[OF h] n show ?thesis by blast
qed

end
